theory Spec2Isabelle
  imports Complex_Main
begin

section \<open>The Firecrawl Python SDK: transport, pollers and crawl watcher\<close>

text \<open>
  A shallow embedding of \<^verbatim>\<open>apps/python-sdk/firecrawl/firecrawl.py\<close>: the transport
  helpers \<^verbatim>\<open>_post_request\<close> and \<^verbatim>\<open>_get_request\<close>, the error translation
  \<^verbatim>\<open>_handle_error\<close> / \<^verbatim>\<open>_get_error_message\<close>, the pollers
  \<^verbatim>\<open>check_crawl_status\<close>, \<^verbatim>\<open>check_batch_scrape_status\<close> and
  \<^verbatim>\<open>_monitor_job_status\<close>, and the class \<^verbatim>\<open>CrawlWatcher\<close>.

  Conventions of the model:
  \<^item> every Python exception is a value of the datatype \<open>error\<close>;
  \<^item> the network and the clock are explicit: a server is a function from the number of
    requests already made and the request to a reply, and every request, sleep, print and
    log call is appended to a trace;
  \<^item> a \<^verbatim>\<open>while\<close> loop that the server can keep alive forever takes fuel, and
    running out of fuel is the result \<open>OutOfFuel\<close>;
  \<^item> Python floats (\<^verbatim>\<open>backoff_factor\<close>, the argument of \<^verbatim>\<open>time.sleep\<close>)
    are real numbers.
\<close>

subsection \<open>Python values\<close>

datatype error =
    Exception string
  | HTTPError "string option"
  | RequestException string
  | JSONDecodeError
  | KeyError string
  | UnboundLocalError string
  | ValueError string
  | TypeError string

text \<open>\<^verbatim>\<open>str(e)\<close> for the exceptions above, as used by the f-strings of the log calls.\<close>

fun str_error :: "error \<Rightarrow> string" where
  "str_error (Exception m) = m"
| "str_error (HTTPError None) = ''None''"
| "str_error (HTTPError (Some m)) = m"
| "str_error (RequestException m) = m"
| "str_error JSONDecodeError = ''Expecting value: line 1 column 1 (char 0)''"
| "str_error (KeyError k) = [CHR 0x27] @ k @ [CHR 0x27]"
| "str_error (UnboundLocalError v) =
     ''cannot access local variable '' @ [CHR 0x27] @ v @ [CHR 0x27] @
     '' where it is not associated with a value''"
| "str_error (ValueError m) = m"
| "str_error (TypeError m) = m"

text \<open>\<^verbatim>\<open>str(n)\<close> for a Python integer: decimal digits, with a minus sign.\<close>

definition digit_char :: "nat \<Rightarrow> char" where
  "digit_char d = ''0123456789'' ! d"

function str_nat :: "nat \<Rightarrow> string" where
  "str_nat n = (if n < 10 then [digit_char n] else str_nat (n div 10) @ [digit_char (n mod 10)])"
  by pat_completeness auto
termination
  by (relation "measure (\<lambda>n. n)") auto

declare str_nat.simps [simp del]

definition str_int :: "int \<Rightarrow> string" where
  "str_int i = (if i < 0 then ''-'' @ str_nat (nat (- i)) else str_nat (nat i))"

subsection \<open>JSON bodies, responses, the server and the trace\<close>

text \<open>
  The JSON object of a status (or error) response, with the keys the SDK reads. A key that
  is absent is \<open>None\<close>. Documents are opaque (\<open>'d\<close>).
\<close>

record 'd status_data =
  status :: "string option"
  total :: "int option"
  completed :: "int option"
  creditsUsed :: "int option"
  expiresAt :: "string option"
  data :: "'d list option"
  "next" :: "string option"
  error :: "string option"
  details :: "string option"

text \<open>\<^verbatim>\<open>response.json()\<close> raises when the body is not JSON.\<close>

datatype 'd body = NotJson | Json "'d status_data"

record 'd response =
  status_code :: int
  body :: "'d body"

datatype request = GET string | POST string "int option"

datatype 'd reply = Reply "'d response" | Fails string

type_synonym 'd server = "nat \<Rightarrow> request \<Rightarrow> 'd reply"

datatype event =
    Requested request
  | Slept real
  | Printed string
  | LogWarning string
  | LogError string

record io =
  calls :: nat
  trace :: "event list"

definition emit :: "event \<Rightarrow> io \<Rightarrow> io" where
  "emit e st = st\<lparr>trace := trace st @ [e]\<rparr>"

text \<open>\<^verbatim>\<open>requests.get\<close> / \<^verbatim>\<open>requests.post\<close>: one round trip to the server.\<close>

definition perform :: "'d server \<Rightarrow> request \<Rightarrow> io \<Rightarrow> 'd reply \<times> io" where
  "perform srv rq st = (srv (calls st) rq, (emit (Requested rq) st)\<lparr>calls := Suc (calls st)\<rparr>)"

text \<open>\<^verbatim>\<open>time.sleep(secs)\<close> raises ValueError on a negative argument.\<close>

definition time_sleep :: "real \<Rightarrow> io \<Rightarrow> error + io" where
  "time_sleep secs st =
     (if secs < 0 then Inl (ValueError ''sleep length must be non-negative'')
      else Inr (emit (Slept secs) st))"

subsection \<open>Transport: \<^verbatim>\<open>_post_request\<close> and \<^verbatim>\<open>_get_request\<close>\<close>

text \<open>
  Both helpers run the same loop
  \<^verbatim>\<open>
  for attempt in range(retries):
      response = requests.get(url, headers=headers)
      if response.status_code == 502:
          time.sleep(backoff_factor * (2 ** attempt))
      else:
          return response
  return response
  \<close>
  and differ in the request only. The loop is \<open>retry_loop\<close>, over the list of the
  attempts still to make; its argument \<open>prev\<close> is the local variable
  \<^verbatim>\<open>response\<close>, unbound (\<open>None\<close>) before the first attempt.
\<close>

fun retry_loop ::
  "'d server \<Rightarrow> request \<Rightarrow> real \<Rightarrow> nat list \<Rightarrow> 'd response option \<Rightarrow> io
     \<Rightarrow> (error + 'd response) \<times> io" where
  "retry_loop srv rq backoff_factor [] prev st =
     (case prev of
        None \<Rightarrow> (Inl (UnboundLocalError ''response''), st)
      | Some response \<Rightarrow> (Inr response, st))"
| "retry_loop srv rq backoff_factor (attempt # rest) prev st =
     (case perform srv rq st of
        (Fails m, st1) \<Rightarrow> (Inl (RequestException m), st1)
      | (Reply response, st1) \<Rightarrow>
          if status_code response = 502 then
            (case time_sleep (backoff_factor * 2 ^ attempt) st1 of
               Inl e \<Rightarrow> (Inl e, st1)
             | Inr st2 \<Rightarrow> retry_loop srv rq backoff_factor rest (Some response) st2)
          else (Inr response, st1))"

definition get_request ::
  "'d server \<Rightarrow> string \<Rightarrow> int \<Rightarrow> real \<Rightarrow> io \<Rightarrow> (error + 'd response) \<times> io" where
  "get_request srv url retries backoff_factor st =
     retry_loop srv (GET url) backoff_factor [0..<nat retries] None st"

text \<open>
  \<^verbatim>\<open>_post_request\<close>; of the dictionary \<^verbatim>\<open>data\<close> only the key
  \<^verbatim>\<open>"timeout"\<close> is read (\<open>data_timeout\<close>, \<open>None\<close> when absent).
\<close>

definition post_request ::
  "'d server \<Rightarrow> string \<Rightarrow> int option \<Rightarrow> int \<Rightarrow> real \<Rightarrow> io \<Rightarrow> (error + 'd response) \<times> io" where
  "post_request srv url data_timeout retries backoff_factor st =
     retry_loop srv
       (POST url (case data_timeout of None \<Rightarrow> None | Some t \<Rightarrow> Some (t + 5000)))
       backoff_factor [0..<nat retries] None st"

text \<open>The callers never pass \<^verbatim>\<open>retries\<close> or \<^verbatim>\<open>backoff_factor\<close>: the defaults apply.\<close>

definition get_request_default :: "'d server \<Rightarrow> string \<Rightarrow> io \<Rightarrow> (error + 'd response) \<times> io" where
  "get_request_default srv url st = get_request srv url 3 (1 / 2) st"

subsection \<open>Error translation: \<^verbatim>\<open>_get_error_message\<close> and \<^verbatim>\<open>_handle_error\<close>\<close>

text \<open>
  \<^verbatim>\<open>_get_error_message\<close> returns a string in every branch but the one for 403, which
  assigns the string to a local variable and falls off the end of the function: the
  result there is Python's \<^verbatim>\<open>None\<close>.
\<close>

definition get_error_message :: "int \<Rightarrow> string \<Rightarrow> string \<Rightarrow> string \<Rightarrow> string option" where
  "get_error_message code action error_message error_details =
     (if code = 402 then
        Some (''Payment Required: Failed to '' @ action @ ''. '' @ error_message @ '' - '' @ error_details)
      else if code = 403 then
        (let message = ''Website Not Supported: Failed to '' @ action @ ''. '' @ error_message
                         @ '' - '' @ error_details
         in None)
      else if code = 408 then
        Some (''Request Timeout: Failed to '' @ action @ '' as the request timed out. ''
                @ error_message @ '' - '' @ error_details)
      else if code = 409 then
        Some (''Conflict: Failed to '' @ action @ '' due to a conflict. '' @ error_message
                @ '' - '' @ error_details)
      else if code = 500 then
        Some (''Internal Server Error: Failed to '' @ action @ ''. '' @ error_message @ '' - ''
                @ error_details)
      else
        Some (''Unexpected error during '' @ action @ '': Status code '' @ str_int code @ ''. ''
                @ error_message @ '' - '' @ error_details))"

text \<open>\<^verbatim>\<open>_handle_error\<close> always raises; the model returns the exception raised.\<close>

definition handle_error :: "'d response \<Rightarrow> string \<Rightarrow> error" where
  "handle_error response action =
     (case body response of
        NotJson \<Rightarrow>
          HTTPError (Some (''Failed to parse Firecrawl error response as JSON. Status code: ''
                            @ str_int (status_code response)))
      | Json d \<Rightarrow>
          (let error_message = (case error d of None \<Rightarrow> ''No error message provided.'' | Some m \<Rightarrow> m);
               error_details = (case details d of
                                  None \<Rightarrow> ''No additional error details provided.''
                                | Some m \<Rightarrow> m)
           in HTTPError (get_error_message (status_code response) action error_message error_details)))"

subsection \<open>Results of the pollers\<close>

datatype 'a result = Returned 'a | Raised error | OutOfFuel

text \<open>
  The keyword arguments that \<^verbatim>\<open>check_crawl_status\<close> and
  \<^verbatim>\<open>check_batch_scrape_status\<close> pass to the response class. The classes
  \<^verbatim>\<open>CrawlStatusResponse\<close> and \<^verbatim>\<open>BatchScrapeStatusResponse\<close> live in
  \<^verbatim>\<open>types.py\<close>; a call that reaches the constructor is the result \<open>Returned\<close> with
  these arguments.
\<close>

record 'd status_kwargs =
  kw_status :: "string option"
  kw_total :: "int option"
  kw_completed :: "int option"
  credits_used :: "int option"
  expires_at :: "string option"
  kw_data :: "'d list"
  kw_next :: "string option"
  kw_error :: "string option"

definition build_response :: "'d status_data \<Rightarrow> 'd list \<Rightarrow> 'd status_kwargs" where
  "build_response status_data docs =
     \<lparr>kw_status = status status_data, kw_total = total status_data,
      kw_completed = completed status_data, credits_used = creditsUsed status_data,
      expires_at = expiresAt status_data, kw_data = docs, kw_next = next status_data,
      kw_error = error status_data\<rparr>"

definition in_progress :: "string list" where
  "in_progress = [''active'', ''paused'', ''pending'', ''queued'', ''waiting'', ''scraping'']"

subsection \<open>Pagination in \<^verbatim>\<open>check_crawl_status\<close> and \<^verbatim>\<open>check_batch_scrape_status\<close>\<close>

text \<open>
  The loop \<^verbatim>\<open>while 'next' in status_data: ...\<close>, the same text in both functions.
  \<open>docs\<close> is the local list \<^verbatim>\<open>data\<close>; \<open>status_data\<close> is the page last fetched,
  whose own \<^verbatim>\<open>'data'\<close> is read by \<^verbatim>\<open>len(status_data['data'])\<close> outside the
  \<^verbatim>\<open>try\<close>. Every exception inside the \<^verbatim>\<open>try\<close> is logged and ends the loop.
  An empty URL stands for every falsy value of \<^verbatim>\<open>next_url\<close>.
\<close>

fun paginate ::
  "nat \<Rightarrow> 'd server \<Rightarrow> 'd status_data \<Rightarrow> 'd list \<Rightarrow> io
     \<Rightarrow> ('d status_data \<times> 'd list) result \<times> io" where
  "paginate 0 srv status_data docs st = (OutOfFuel, st)"
| "paginate (Suc fuel) srv status_data docs st =
     (case next status_data of
        None \<Rightarrow> (Returned (status_data, docs), st)
      | Some next_url \<Rightarrow>
          (case data status_data of
             None \<Rightarrow> (Raised (KeyError ''data''), st)
           | Some page \<Rightarrow>
               if length page = 0 then (Returned (status_data, docs), st)
               else if next_url = [] then
                 (Returned (status_data, docs),
                  emit (LogWarning (''Expected '' @ [CHR 0x27] @ ''next'' @ [CHR 0x27]
                                      @ '' URL is missing.'')) st)
               else
                 (case get_request_default srv next_url st of
                    (Inl e, st1) \<Rightarrow>
                      (Returned (status_data, docs),
                       emit (LogError (''Error during pagination request: '' @ str_error e)) st1)
                  | (Inr status_response, st1) \<Rightarrow>
                      if status_code status_response \<noteq> 200 then
                        (Returned (status_data, docs),
                         emit (LogError (''Failed to fetch next page: ''
                                           @ str_int (status_code status_response))) st1)
                      else
                        (case body status_response of
                           NotJson \<Rightarrow>
                             (Returned (status_data, docs),
                              emit (LogError (''Error during pagination request: '' @
                                      str_error (Exception ''Failed to parse Firecrawl response as JSON.'')))
                                st1)
                         | Json next_data \<Rightarrow>
                             paginate fuel srv next_data
                               (docs @ (case data next_data of None \<Rightarrow> [] | Some ds \<Rightarrow> ds)) st1))))"

subsection \<open>\<^verbatim>\<open>check_crawl_status\<close>\<close>

text \<open>
  The local variable \<^verbatim>\<open>data\<close> is bound only in the branch for a completed job with a
  \<^verbatim>\<open>'data'\<close> key; building the dictionary \<^verbatim>\<open>response\<close> reads it in every
  branch.
\<close>

definition check_crawl_status ::
  "nat \<Rightarrow> 'd server \<Rightarrow> string \<Rightarrow> string \<Rightarrow> io \<Rightarrow> 'd status_kwargs result \<times> io" where
  "check_crawl_status fuel srv api_url job_id st =
     (case get_request_default srv (api_url @ ''/v1/crawl/'' @ job_id) st of
        (Inl e, st1) \<Rightarrow> (Raised e, st1)
      | (Inr response, st1) \<Rightarrow>
          if status_code response = 200 then
            (case body response of
               NotJson \<Rightarrow> (Raised (Exception ''Failed to parse Firecrawl response as JSON.''), st1)
             | Json status_data \<Rightarrow>
                 (case status status_data of
                    None \<Rightarrow> (Raised (KeyError ''status''), st1)
                  | Some s \<Rightarrow>
                      if s = ''completed'' then
                        (case data status_data of
                           None \<Rightarrow> (Raised (UnboundLocalError ''data''), st1)
                         | Some docs \<Rightarrow>
                             (case paginate fuel srv status_data docs st1 of
                                (Returned (last_page, docs'), st2) \<Rightarrow>
                                  (Returned (build_response last_page docs'), st2)
                              | (Raised e, st2) \<Rightarrow> (Raised e, st2)
                              | (OutOfFuel, st2) \<Rightarrow> (OutOfFuel, st2)))
                      else (Raised (UnboundLocalError ''data''), st1)))
          else (Raised (handle_error response ''check crawl status''), st1))"

subsection \<open>\<^verbatim>\<open>check_batch_scrape_status\<close>\<close>

text \<open>
  The loop \<^verbatim>\<open>while status_data['status'] != 'completed': ...\<close>: print the status,
  sleep for \<^verbatim>\<open>poll_interval\<close> and query again.
\<close>

fun batch_wait ::
  "nat \<Rightarrow> 'd server \<Rightarrow> string \<Rightarrow> int \<Rightarrow> 'd status_data \<Rightarrow> io \<Rightarrow> 'd status_data result \<times> io" where
  "batch_wait 0 srv url poll_interval status_data st = (OutOfFuel, st)"
| "batch_wait (Suc fuel) srv url poll_interval status_data st =
     (case status status_data of
        None \<Rightarrow> (Raised (KeyError ''status''), st)
      | Some s \<Rightarrow>
          if s = ''completed'' then (Returned status_data, st)
          else
            (case time_sleep (real_of_int poll_interval) (emit (Printed s) st) of
               Inl e \<Rightarrow> (Raised e, emit (Printed s) st)
             | Inr st1 \<Rightarrow>
                 (case get_request_default srv url st1 of
                    (Inl e, st2) \<Rightarrow> (Raised e, st2)
                  | (Inr response, st2) \<Rightarrow>
                      if status_code response = 200 then
                        (case body response of
                           NotJson \<Rightarrow> (Raised JSONDecodeError, st2)
                         | Json status_data' \<Rightarrow>
                             batch_wait fuel srv url poll_interval status_data' st2)
                      else (Raised (handle_error response ''check batch scrape status''), st2))))"

text \<open>
  \<open>transform\<close> is \<^verbatim>\<open>scrape_formats_response_transform\<close> of \<^verbatim>\<open>utils.py\<close>, applied
  to every document in place.
\<close>

definition check_batch_scrape_status ::
  "nat \<Rightarrow> ('d \<Rightarrow> 'd) \<Rightarrow> 'd server \<Rightarrow> string \<Rightarrow> string \<Rightarrow> int \<Rightarrow> io
     \<Rightarrow> 'd status_kwargs result \<times> io" where
  "check_batch_scrape_status fuel transform srv api_url job_id poll_interval st =
     (case get_request_default srv (api_url @ ''/v1/batch/scrape/'' @ job_id) st of
        (Inl e, st1) \<Rightarrow> (Raised e, st1)
      | (Inr response, st1) \<Rightarrow>
          if status_code response = 200 then
            (case body response of
               NotJson \<Rightarrow> (Raised (Exception ''Failed to parse Firecrawl response as JSON.''), st1)
             | Json first_data \<Rightarrow>
                 (case batch_wait fuel srv (api_url @ ''/v1/batch/scrape/'' @ job_id)
                         poll_interval first_data st1 of
                    (Raised e, st2) \<Rightarrow> (Raised e, st2)
                  | (OutOfFuel, st2) \<Rightarrow> (OutOfFuel, st2)
                  | (Returned status_data, st2) \<Rightarrow>
                      (case data status_data of
                         None \<Rightarrow> (Raised (UnboundLocalError ''data''), st2)
                       | Some docs \<Rightarrow>
                           (case paginate fuel srv status_data docs st2 of
                              (Returned (last_page, docs'), st3) \<Rightarrow>
                                (Returned (build_response last_page
                                   (if docs' \<noteq> [] then map transform docs' else docs')), st3)
                            | (Raised e, st3) \<Rightarrow> (Raised e, st3)
                            | (OutOfFuel, st3) \<Rightarrow> (OutOfFuel, st3)))))
          else (Raised (handle_error response ''check batch scrape status''), st1))"

subsection \<open>\<^verbatim>\<open>_monitor_job_status\<close>\<close>

text \<open>
  Its pagination loop has no \<^verbatim>\<open>try\<close> around the request and no test of the status
  code of the page fetched.
\<close>

fun monitor_paginate ::
  "nat \<Rightarrow> 'd server \<Rightarrow> 'd status_data \<Rightarrow> 'd list \<Rightarrow> io
     \<Rightarrow> ('d status_data \<times> 'd list) result \<times> io" where
  "monitor_paginate 0 srv status_data docs st = (OutOfFuel, st)"
| "monitor_paginate (Suc fuel) srv status_data docs st =
     (case next status_data of
        None \<Rightarrow> (Returned (status_data, docs), st)
      | Some next_url \<Rightarrow>
          (case data status_data of
             None \<Rightarrow> (Raised (KeyError ''data''), st)
           | Some page \<Rightarrow>
               if length page = 0 then (Returned (status_data, docs), st)
               else
                 (case get_request_default srv next_url st of
                    (Inl e, st1) \<Rightarrow> (Raised e, st1)
                  | (Inr status_response, st1) \<Rightarrow>
                      (case body status_response of
                         NotJson \<Rightarrow>
                           (Raised (Exception ''Failed to parse Firecrawl response as JSON.''), st1)
                       | Json next_data \<Rightarrow>
                           monitor_paginate fuel srv next_data
                             (docs @ (case data next_data of None \<Rightarrow> [] | Some ds \<Rightarrow> ds)) st1))))"

text \<open>
  The loop \<^verbatim>\<open>while True\<close>. The value returned is
  \<^verbatim>\<open>CrawlStatusResponse(**status_data)\<close>: the last page with its \<^verbatim>\<open>'data'\<close>
  replaced by the accumulated list.
\<close>

fun monitor_job_status ::
  "nat \<Rightarrow> 'd server \<Rightarrow> string \<Rightarrow> string \<Rightarrow> int \<Rightarrow> io \<Rightarrow> 'd status_data result \<times> io" where
  "monitor_job_status 0 srv api_url job_id poll_interval st = (OutOfFuel, st)"
| "monitor_job_status (Suc fuel) srv api_url job_id poll_interval st =
     (case get_request_default srv (api_url @ ''/v1/crawl/'' @ job_id) st of
        (Inl e, st1) \<Rightarrow> (Raised e, st1)
      | (Inr status_response, st1) \<Rightarrow>
          if status_code status_response = 200 then
            (case body status_response of
               NotJson \<Rightarrow> (Raised (Exception ''Failed to parse Firecrawl response as JSON.''), st1)
             | Json status_data \<Rightarrow>
                 (case status status_data of
                    None \<Rightarrow> (Raised (KeyError ''status''), st1)
                  | Some s \<Rightarrow>
                      if s = ''completed'' then
                        (case data status_data of
                           Some docs \<Rightarrow>
                             (case monitor_paginate fuel srv status_data docs st1 of
                                (Returned (last_page, docs'), st2) \<Rightarrow>
                                  (Returned (last_page\<lparr>data := Some docs'\<rparr>), st2)
                              | (Raised e, st2) \<Rightarrow> (Raised e, st2)
                              | (OutOfFuel, st2) \<Rightarrow> (OutOfFuel, st2))
                         | None \<Rightarrow>
                             (Raised (Exception ''Crawl job completed but no data was returned''), st1))
                      else if s \<in> set in_progress then
                        (let poll_interval' = max poll_interval 2 in
                           case time_sleep (real_of_int poll_interval') st1 of
                             Inl e \<Rightarrow> (Raised e, st1)
                           | Inr st2 \<Rightarrow> monitor_job_status fuel srv api_url job_id poll_interval' st2)
                      else
                        (Raised (Exception (''Crawl job failed or was stopped. Status: '' @ s)), st1)))
          else (Raised (handle_error status_response ''check crawl status''), st1))"

subsection \<open>\<^verbatim>\<open>CrawlWatcher\<close>\<close>

text \<open>
  The dictionaries handed to the listeners: \<^verbatim>\<open>{'status', 'data', 'id'}\<close> for
  \<^verbatim>\<open>done\<close>, \<^verbatim>\<open>{'status', 'data', 'error', 'id'}\<close> for \<^verbatim>\<open>error\<close> and
  \<^verbatim>\<open>{'data', 'id'}\<close> for \<^verbatim>\<open>document\<close>.
\<close>

datatype 'd detail =
    DoneDetail string "'d list" string
  | ErrorDetail string "'d list" string string
  | DocumentDetail 'd string

text \<open>
  A listener is caller code: it changes the caller's world \<open>'w\<close> and may raise. It
  returns the exception raised, if any, and the world it leaves behind.
\<close>

type_synonym ('d, 'w) handler = "'d detail \<Rightarrow> 'w \<Rightarrow> error option \<times> 'w"

record ('d, 'w) crawl_watcher =
  watcher_id :: string
  watcher_data :: "'d list"
  watcher_status :: string
  event_handlers :: "string \<rightharpoonup> ('d, 'w) handler list"

text \<open>
  What lies outside the watcher: the calls of \<^verbatim>\<open>dispatch_event\<close> made so far, and
  the listeners' world.
\<close>

record ('d, 'w) outside =
  dispatched :: "(string \<times> 'd detail) list"
  world :: 'w

text \<open>
  \<^verbatim>\<open>__init__\<close>. The attributes \<^verbatim>\<open>app\<close> and \<^verbatim>\<open>ws_url\<close> are read by
  \<^verbatim>\<open>connect\<close> only and are left out.
\<close>

definition init_watcher :: "string \<Rightarrow> ('d, 'w) crawl_watcher" where
  "init_watcher job_id =
     \<lparr>watcher_id = job_id, watcher_data = [], watcher_status = ''scraping'',
      event_handlers = [''done'' \<mapsto> [], ''error'' \<mapsto> [], ''document'' \<mapsto> []]\<rparr>"

definition add_event_listener ::
  "string \<Rightarrow> ('d, 'w) handler \<Rightarrow> ('d, 'w) crawl_watcher \<Rightarrow> ('d, 'w) crawl_watcher" where
  "add_event_listener event_type handler watcher =
     (case event_handlers watcher event_type of
        None \<Rightarrow> watcher
      | Some hs \<Rightarrow> watcher\<lparr>event_handlers := (event_handlers watcher)(event_type \<mapsto> hs @ [handler])\<rparr>)"

text \<open>\<^verbatim>\<open>for handler in self.event_handlers[event_type]: handler(detail)\<close>\<close>

fun call_handlers :: "('d, 'w) handler list \<Rightarrow> 'd detail \<Rightarrow> 'w \<Rightarrow> error option \<times> 'w" where
  "call_handlers [] detail w = (None, w)"
| "call_handlers (handler # rest) detail w =
     (case handler detail w of
        (Some e, w') \<Rightarrow> (Some e, w')
      | (None, w') \<Rightarrow> call_handlers rest detail w')"

definition dispatch_event ::
  "string \<Rightarrow> 'd detail \<Rightarrow> ('d, 'w) crawl_watcher \<Rightarrow> ('d, 'w) outside
     \<Rightarrow> error option \<times> ('d, 'w) outside" where
  "dispatch_event event_type detail watcher out =
     (let out1 = out\<lparr>dispatched := dispatched out @ [(event_type, detail)]\<rparr> in
      case event_handlers watcher event_type of
        None \<Rightarrow> (None, out1)
      | Some hs \<Rightarrow>
          (case call_handlers hs detail (world out1) of (e, w') \<Rightarrow> (e, out1\<lparr>world := w'\<rparr>)))"

text \<open>
  An inbound frame after \<^verbatim>\<open>json.loads\<close>. \<^verbatim>\<open>msg['data']\<close> is a document in a
  \<^verbatim>\<open>document\<close> frame and a dictionary with \<^verbatim>\<open>'status'\<close> and \<^verbatim>\<open>'data'\<close> in a
  \<^verbatim>\<open>catchup\<close> frame. A payload of the other shape is outside the protocol; the model
  raises TypeError there.
\<close>

datatype 'd payload = Document 'd | Snapshot "string option" "'d list option"

record 'd message =
  msg_type :: "string option"
  msg_data :: "'d payload option"
  msg_error :: "string option"

text \<open>\<^verbatim>\<open>for doc in self.data: self.dispatch_event('document', {'data': doc, 'id': self.id})\<close>\<close>

fun dispatch_documents ::
  "'d list \<Rightarrow> ('d, 'w) crawl_watcher \<Rightarrow> ('d, 'w) outside \<Rightarrow> error option \<times> ('d, 'w) outside" where
  "dispatch_documents [] watcher out = (None, out)"
| "dispatch_documents (doc # rest) watcher out =
     (case dispatch_event ''document'' (DocumentDetail doc (watcher_id watcher)) watcher out of
        (Some e, out') \<Rightarrow> (Some e, out')
      | (None, out') \<Rightarrow> dispatch_documents rest watcher out')"

text \<open>
  \<^verbatim>\<open>_handle_message\<close>, the same text in \<^verbatim>\<open>CrawlWatcher\<close> and
  \<^verbatim>\<open>AsyncCrawlWatcher\<close>. The result is the exception that escapes, if any, with the
  watcher and the outside as they are at that moment.
\<close>

definition handle_message ::
  "'d message \<Rightarrow> ('d, 'w) crawl_watcher \<Rightarrow> ('d, 'w) outside
     \<Rightarrow> error option \<times> ('d, 'w) crawl_watcher \<times> ('d, 'w) outside" where
  "handle_message msg watcher out =
     (case msg_type msg of
        None \<Rightarrow> (Some (KeyError ''type''), watcher, out)
      | Some t \<Rightarrow>
          if t = ''done'' then
            (let w1 = watcher\<lparr>watcher_status := ''completed''\<rparr> in
             case dispatch_event ''done''
                    (DoneDetail (watcher_status w1) (watcher_data w1) (watcher_id w1)) w1 out of
               (e, out') \<Rightarrow> (e, w1, out'))
          else if t = ''error'' then
            (let w1 = watcher\<lparr>watcher_status := ''failed''\<rparr> in
             case msg_error msg of
               None \<Rightarrow> (Some (KeyError ''error''), w1, out)
             | Some err \<Rightarrow>
                 (case dispatch_event ''error''
                         (ErrorDetail (watcher_status w1) (watcher_data w1) err (watcher_id w1))
                         w1 out of
                    (e, out') \<Rightarrow> (e, w1, out')))
          else if t = ''catchup'' then
            (case msg_data msg of
               None \<Rightarrow> (Some (KeyError ''data''), watcher, out)
             | Some (Document d) \<Rightarrow> (Some (TypeError ''catchup payload''), watcher, out)
             | Some (Snapshot None docs) \<Rightarrow> (Some (KeyError ''status''), watcher, out)
             | Some (Snapshot (Some s) docs) \<Rightarrow>
                 (let w1 = watcher\<lparr>watcher_status := s\<rparr>;
                      w2 = w1\<lparr>watcher_data :=
                                watcher_data w1 @ (case docs of None \<Rightarrow> [] | Some ds \<Rightarrow> ds)\<rparr>
                  in case dispatch_documents (watcher_data w2) w2 out of
                       (e, out') \<Rightarrow> (e, w2, out')))
          else if t = ''document'' then
            (case msg_data msg of
               None \<Rightarrow> (Some (KeyError ''data''), watcher, out)
             | Some (Snapshot s docs) \<Rightarrow> (Some (TypeError ''document payload''), watcher, out)
             | Some (Document d) \<Rightarrow>
                 (let w1 = watcher\<lparr>watcher_data := watcher_data watcher @ [d]\<rparr> in
                  case dispatch_event ''document'' (DocumentDetail d (watcher_id w1)) w1 out of
                    (e, out') \<Rightarrow> (e, w1, out')))
          else (None, watcher, out))"

text \<open>
  \<^verbatim>\<open>_listen\<close>: \<^verbatim>\<open>async for message in websocket\<close>, one frame after the other; an
  exception ends the loop.
\<close>

fun listen ::
  "'d message list \<Rightarrow> ('d, 'w) crawl_watcher \<Rightarrow> ('d, 'w) outside
     \<Rightarrow> error option \<times> ('d, 'w) crawl_watcher \<times> ('d, 'w) outside" where
  "listen [] watcher out = (None, watcher, out)"
| "listen (msg # rest) watcher out =
     (case handle_message msg watcher out of
        (Some e, watcher', out') \<Rightarrow> (Some e, watcher', out')
      | (None, watcher', out') \<Rightarrow> listen rest watcher' out')"

section \<open>Properties\<close>

subsection \<open>Evaluation lemmas\<close>

lemma perform_simps:
  "perform srv rq st = (srv (calls st) rq, \<lparr>calls = Suc (calls st), trace = trace st @ [Requested rq]\<rparr>)"
  by (simp add: perform_def emit_def)

lemma time_sleep_nonneg: "0 \<le> secs \<Longrightarrow> time_sleep secs st = Inr (emit (Slept secs) st)"
  by (simp add: time_sleep_def)

lemma upt3: "[0..<3] = [0, Suc 0, Suc (Suc 0)]"
  by (simp add: upt_rec)

text \<open>The transport call of the pollers, with the default arguments written out.\<close>

lemma get_request_default_eval:
  "get_request_default srv url st = retry_loop srv (GET url) (1 / 2) [0, Suc 0, Suc (Suc 0)] None st"
  by (simp add: get_request_default_def get_request_def upt3)

subsection \<open>Transport\<close>

text \<open>
  The loop of the transport helpers with the default bound of three attempts, by the
  replies of the server to the attempts made.
\<close>

lemma retry_three:
  fixes srv :: "'d server"
  assumes "0 \<le> bf"
  shows "(srv (calls st) rq = Reply r0 \<and> status_code r0 \<noteq> 502 \<longrightarrow>
            retry_loop srv rq bf [0..<nat 3] None st =
              (Inr r0, \<lparr>calls = calls st + 1, trace = trace st @ [Requested rq]\<rparr>))"
    and "(srv (calls st) rq = Reply r0 \<and> status_code r0 = 502 \<and>
          srv (calls st + 1) rq = Reply r1 \<and> status_code r1 \<noteq> 502 \<longrightarrow>
            retry_loop srv rq bf [0..<nat 3] None st =
              (Inr r1, \<lparr>calls = calls st + 2,
                        trace = trace st @ [Requested rq, Slept (bf * 2 ^ 0), Requested rq]\<rparr>))"
    and "(srv (calls st) rq = Reply r0 \<and> status_code r0 = 502 \<and>
          srv (calls st + 1) rq = Reply r1 \<and> status_code r1 = 502 \<and>
          srv (calls st + 2) rq = Reply r2 \<longrightarrow>
            retry_loop srv rq bf [0..<nat 3] None st =
              (Inr r2, \<lparr>calls = calls st + 3,
                        trace = trace st @ [Requested rq, Slept (bf * 2 ^ 0), Requested rq,
                                 Slept (bf * 2 ^ 1), Requested rq]
                               @ (if status_code r2 = 502 then [Slept (bf * 2 ^ 2)] else [])\<rparr>))"
  using assms by (simp_all add: upt3 perform_simps time_sleep_nonneg emit_def numeral_2_eq_2)

text \<open>The loop sends at most one request per attempt.\<close>

lemma retry_loop_calls_bound:
  "retry_loop srv rq bf attempts prev st = (res, st') \<Longrightarrow>
   calls st \<le> calls st' \<and> calls st' \<le> calls st + length attempts"
proof (induction attempts arbitrary: prev st)
  case Nil
  then show ?case by (auto split: option.splits)
next
  case (Cons a attempts)
  show ?case
  proof (cases "srv (calls st) rq")
    case (Fails m)
    with Cons.prems show ?thesis by (auto simp: perform_simps)
  next
    case (Reply r)
    show ?thesis
    proof (cases "status_code r = 502 \<and> \<not> bf * 2 ^ a < 0")
      case True
      let ?st2 = "emit (Slept (bf * 2 ^ a)) \<lparr>calls = Suc (calls st), trace = trace st @ [Requested rq]\<rparr>"
      from True Reply Cons.prems
      have "retry_loop srv rq bf attempts (Some r) ?st2 = (res, st')"
        by (simp add: perform_simps time_sleep_def)
      from Cons.IH [OF this] show ?thesis by (simp add: emit_def)
    next
      case False
      with Reply Cons.prems show ?thesis
        by (auto simp: perform_simps time_sleep_def split: if_splits)
    qed
  qed
qed

lemma get_request_at_most_retries:
  "get_request srv url retries bf st = (res, st') \<Longrightarrow> calls st' \<le> calls st + nat retries"
  unfolding get_request_def using retry_loop_calls_bound [of srv "GET url" bf "[0..<nat retries]" None st res st']
  by simp

text \<open>
  Claim C5. A request sent through \<^verbatim>\<open>_get_request\<close> or \<^verbatim>\<open>_post_request\<close> with
  the default bound of 3 attempts and a backoff factor \<open>bf \<ge> 0\<close>: a reply whose status
  is not 502 is returned at once, with no sleep and no further request; after a 502 the
  helper sleeps \<open>bf * 2 ^ attempt\<close> (attempt 0, 1, 2) and sends the request again; the
  reply to the third attempt is returned whatever its status, a 502 included, and nothing
  is raised. (After a third 502 the helper sleeps \<open>bf * 2 ^ 2\<close> once more before it
  returns.)
\<close>

theorem C5_retry_policy:
  fixes srv :: "'d server"
  assumes "0 \<le> bf"
    and "(send = get_request srv url 3 bf \<and> rq = GET url) \<or>
         (send = post_request srv url tmo 3 bf \<and>
          rq = POST url (case tmo of None \<Rightarrow> None | Some t \<Rightarrow> Some (t + 5000)))"
  shows "(srv (calls st) rq = Reply r0 \<and> status_code r0 \<noteq> 502 \<longrightarrow>
            send st = (Inr r0, \<lparr>calls = calls st + 1, trace = trace st @ [Requested rq]\<rparr>)) \<and>
         (srv (calls st) rq = Reply r0 \<and> status_code r0 = 502 \<and>
          srv (calls st + 1) rq = Reply r1 \<and> status_code r1 \<noteq> 502 \<longrightarrow>
            send st =
              (Inr r1, \<lparr>calls = calls st + 2,
                        trace = trace st @ [Requested rq, Slept (bf * 2 ^ 0), Requested rq]\<rparr>)) \<and>
         (srv (calls st) rq = Reply r0 \<and> status_code r0 = 502 \<and>
          srv (calls st + 1) rq = Reply r1 \<and> status_code r1 = 502 \<and>
          srv (calls st + 2) rq = Reply r2 \<longrightarrow>
            send st =
              (Inr r2, \<lparr>calls = calls st + 3,
                        trace = trace st @ [Requested rq, Slept (bf * 2 ^ 0), Requested rq,
                                 Slept (bf * 2 ^ 1), Requested rq]
                               @ (if status_code r2 = 502 then [Slept (bf * 2 ^ 2)] else [])\<rparr>))"
proof -
  have send: "send st = retry_loop srv rq bf [0..<nat 3] None st"
    using assms(2) by (auto simp: get_request_def post_request_def)
  show ?thesis
    unfolding send using retry_three [OF assms(1)] by blast
qed

text \<open>
  With the default backoff factor 0.5: two 502 replies and then a 200 through
  \<^verbatim>\<open>_get_request\<close>, and three 502 replies through \<^verbatim>\<open>_post_request\<close>.
\<close>

theorem C5_retry_policy_witness:
  "get_request (\<lambda>n rq. Reply \<lparr>status_code = (if n < 2 then 502 else 200), body = (NotJson :: nat body)\<rparr>)
      ''https://api.firecrawl.dev/v1/crawl/7'' 3 (1 / 2) \<lparr>calls = 0, trace = []\<rparr> =
     (Inr \<lparr>status_code = 200, body = NotJson\<rparr>,
      \<lparr>calls = 3,
       trace = [Requested (GET ''https://api.firecrawl.dev/v1/crawl/7''), Slept (1 / 2),
                Requested (GET ''https://api.firecrawl.dev/v1/crawl/7''), Slept 1,
                Requested (GET ''https://api.firecrawl.dev/v1/crawl/7'')]\<rparr>) \<and>
   post_request (\<lambda>n rq. Reply \<lparr>status_code = 502, body = (NotJson :: nat body)\<rparr>)
      ''https://api.firecrawl.dev/v1/crawl'' (Some 30000) 3 (1 / 2) \<lparr>calls = 0, trace = []\<rparr> =
     (Inr \<lparr>status_code = 502, body = NotJson\<rparr>,
      \<lparr>calls = 3,
       trace = [Requested (POST ''https://api.firecrawl.dev/v1/crawl'' (Some 35000)), Slept (1 / 2),
                Requested (POST ''https://api.firecrawl.dev/v1/crawl'' (Some 35000)), Slept 1,
                Requested (POST ''https://api.firecrawl.dev/v1/crawl'' (Some 35000)), Slept 2]\<rparr>)"
proof -
  let ?s1 = "\<lambda>(n::nat) (rq::request).
               Reply \<lparr>status_code = (if n < 2 then 502 else 200), body = (NotJson :: nat body)\<rparr>"
  let ?s2 = "\<lambda>(n::nat) (rq::request). Reply \<lparr>status_code = 502, body = (NotJson :: nat body)\<rparr>"
  let ?u = "''https://api.firecrawl.dev/v1/crawl/7''"
  let ?v = "''https://api.firecrawl.dev/v1/crawl''"
  have a: "get_request ?s1 ?u 3 (1 / 2) \<lparr>calls = 0, trace = []\<rparr> =
     (Inr \<lparr>status_code = 200, body = NotJson\<rparr>,
      \<lparr>calls = 3,
       trace = [Requested (GET ?u), Slept (1 / 2), Requested (GET ?u), Slept 1, Requested (GET ?u)]\<rparr>)"
    using C5_retry_policy [where bf = "1 / 2" and send = "get_request ?s1 ?u 3 (1 / 2)"
        and srv = ?s1 and url = ?u and rq = "GET ?u" and st = "\<lparr>calls = 0, trace = []\<rparr>"
        and ?r0.0 = "\<lparr>status_code = 502, body = NotJson\<rparr>"
        and ?r1.0 = "\<lparr>status_code = 502, body = NotJson\<rparr>"
        and ?r2.0 = "\<lparr>status_code = 200, body = NotJson\<rparr>"]
    by simp
  have b: "post_request ?s2 ?v (Some 30000) 3 (1 / 2) \<lparr>calls = 0, trace = []\<rparr> =
     (Inr \<lparr>status_code = 502, body = NotJson\<rparr>,
      \<lparr>calls = 3,
       trace = [Requested (POST ?v (Some 35000)), Slept (1 / 2),
                Requested (POST ?v (Some 35000)), Slept 1,
                Requested (POST ?v (Some 35000)), Slept 2]\<rparr>)"
    using C5_retry_policy [where bf = "1 / 2" and send = "post_request ?s2 ?v (Some 30000) 3 (1 / 2)"
        and srv = ?s2 and url = ?v and tmo = "Some 30000" and rq = "POST ?v (Some 35000)"
        and st = "\<lparr>calls = 0, trace = []\<rparr>"
        and ?r0.0 = "\<lparr>status_code = 502, body = NotJson\<rparr>"
        and ?r1.0 = "\<lparr>status_code = 502, body = NotJson\<rparr>"
        and ?r2.0 = "\<lparr>status_code = 502, body = NotJson\<rparr>"]
    by simp
  from a b show ?thesis by blast
qed

subsection \<open>Error translation\<close>

text \<open>For every status code but 403 the message ends with the server's error and details.\<close>

lemma get_error_message_other:
  "code \<noteq> 403 \<Longrightarrow>
   \<exists>pre. get_error_message code action error_message error_details =
     Some (pre @ error_message @ '' - '' @ error_details)"
  unfolding get_error_message_def
  by (auto intro: exI [where x = "''Payment Required: Failed to '' @ action @ ''. ''"]
           simp del: append_assoc simp add: append_assoc [symmetric])

lemma get_error_message_403:
  "get_error_message 403 action error_message error_details = None"
  by (simp add: get_error_message_def)

text \<open>
  Claim C7. At status 403 the message built from the action, the server's error and its
  details is never returned: \<^verbatim>\<open>_get_error_message\<close> yields \<^verbatim>\<open>None\<close>, and the
  HTTPError that \<^verbatim>\<open>_handle_error\<close> raises carries no message, so neither
  "not supported" nor the server's error and details reach the caller.
\<close>

theorem C7_forbidden_message_lost:
  "get_error_message 403 ''check crawl status'' ''Forbidden'' ''This site is blocked'' = None \<and>
   handle_error
     \<lparr>status_code = 403,
      body = Json \<lparr>status = None, total = None, completed = None, creditsUsed = None,
                   expiresAt = None, data = (None :: nat list option), next = None,
                   error = Some ''Forbidden'', details = Some ''This site is blocked''\<rparr>\<rparr>
     ''check crawl status'' = HTTPError None"
  by (simp add: handle_error_def get_error_message_def)

subsection \<open>Pagination\<close>

text \<open>One iteration of each pagination loop, by what the page fetch yields.\<close>

lemma paginate_no_next:
  "next status_data = None \<Longrightarrow>
   paginate (Suc fuel) srv status_data docs st = (Returned (status_data, docs), st)"
  by simp

lemma paginate_fetch:
  assumes "next status_data = Some url" "url \<noteq> []" "data status_data = Some page" "page \<noteq> []"
    and "get_request_default srv url st = (Inr r, st1)" "status_code r = 200" "body r = Json next_data"
  shows "paginate (Suc fuel) srv status_data docs st =
           paginate fuel srv next_data
             (docs @ (case data next_data of None \<Rightarrow> [] | Some ds \<Rightarrow> ds)) st1"
  using assms by simp

lemma paginate_failed_fetch:
  assumes "next status_data = Some url" "url \<noteq> []" "data status_data = Some page" "page \<noteq> []"
    and "get_request_default srv url st = (Inr r, st1)" "status_code r \<noteq> 200"
  shows "paginate (Suc fuel) srv status_data docs st =
           (Returned (status_data, docs),
            emit (LogError (''Failed to fetch next page: '' @ str_int (status_code r))) st1)"
  using assms by simp

lemma monitor_paginate_no_next:
  "next status_data = None \<Longrightarrow>
   monitor_paginate (Suc fuel) srv status_data docs st = (Returned (status_data, docs), st)"
  by simp

lemma monitor_paginate_fetch:
  assumes "next status_data = Some url" "data status_data = Some page" "page \<noteq> []"
    and "get_request_default srv url st = (Inr r, st1)" "body r = Json next_data"
  shows "monitor_paginate (Suc fuel) srv status_data docs st =
           monitor_paginate fuel srv next_data
             (docs @ (case data next_data of None \<Rightarrow> [] | Some ds \<Rightarrow> ds)) st1"
  using assms by simp

lemma monitor_paginate_not_json:
  assumes "next status_data = Some url" "data status_data = Some page" "page \<noteq> []"
    and "get_request_default srv url st = (Inr r, st1)" "body r = NotJson"
  shows "monitor_paginate (Suc fuel) srv status_data docs st =
           (Raised (Exception ''Failed to parse Firecrawl response as JSON.''), st1)"
  using assms by simp

text \<open>
  Fuel is a bound on the iterations only: a loop that returns or raises with some fuel does
  the same with more.
\<close>

lemma paginate_more_fuel:
  "paginate fuel srv status_data docs st = (res, st') \<Longrightarrow> res \<noteq> OutOfFuel \<Longrightarrow>
   paginate (fuel + extra) srv status_data docs st = (res, st')"
proof (induction fuel arbitrary: status_data docs st)
  case 0
  then show ?case by simp
next
  case (Suc fuel)
  then show ?case
    by (auto split: option.splits if_splits sum.splits prod.splits body.splits)
qed

lemma monitor_paginate_more_fuel:
  "monitor_paginate fuel srv status_data docs st = (res, st') \<Longrightarrow> res \<noteq> OutOfFuel \<Longrightarrow>
   monitor_paginate (fuel + extra) srv status_data docs st = (res, st')"
proof (induction fuel arbitrary: status_data docs st)
  case 0
  then show ?case by simp
next
  case (Suc fuel)
  then show ?case
    by (auto split: option.splits if_splits sum.splits prod.splits body.splits)
qed

text \<open>
  Claim C2. A completed job whose first page has the documents \<open>[a, b]\<close> and a next-page
  URL, and whose next page (a 200 response) has the documents \<open>[c]\<close> and no next-page URL:
  \<^verbatim>\<open>check_crawl_status\<close> and \<^verbatim>\<open>_monitor_job_status\<close> both return, with the
  documents \<open>[a, b, c]\<close> in the order the pages were fetched and with status, total,
  completed, creditsUsed and expiresAt (and next and error) taken from the last page; the
  first page's values of these fields are gone. Two iterations of the pagination loop are
  enough.
\<close>

theorem C2_pagination_aggregation:
  assumes "get_request_default srv (api_url @ ''/v1/crawl/'' @ job_id) st = (Inr r1, st1)"
    and "status_code r1 = 200" "body r1 = Json p1" "status p1 = Some ''completed''"
    and "data p1 = Some [a, b]" "next p1 = Some url" "url \<noteq> []"
    and "get_request_default srv url st1 = (Inr r2, st2)"
    and "status_code r2 = 200" "body r2 = Json p2" "data p2 = Some [c]" "next p2 = None"
  shows "check_crawl_status (Suc (Suc fuel)) srv api_url job_id st =
           (Returned \<lparr>kw_status = status p2, kw_total = total p2, kw_completed = completed p2,
                      credits_used = creditsUsed p2, expires_at = expiresAt p2,
                      kw_data = [a, b, c], kw_next = None, kw_error = error p2\<rparr>, st2) \<and>
         monitor_job_status (Suc (Suc (Suc fuel))) srv api_url job_id poll_interval st =
           (Returned (p2\<lparr>data := Some [a, b, c]\<rparr>), st2)"
proof -
  have pg: "paginate (Suc (Suc fuel)) srv p1 [a, b] st1 = (Returned (p2, [a, b, c]), st2)"
    using assms by (simp del: paginate.simps add: paginate_fetch [where url = url and page = "[a, b]" and r = r2 and ?st1.0 = st2 and next_data = p2] paginate_no_next)
  have mp: "monitor_paginate (Suc (Suc fuel)) srv p1 [a, b] st1 = (Returned (p2, [a, b, c]), st2)"
    using assms by (simp del: monitor_paginate.simps add: monitor_paginate_fetch [where url = url and page = "[a, b]" and r = r2 and ?st1.0 = st2 and next_data = p2] monitor_paginate_no_next)
  have A: "check_crawl_status (Suc (Suc fuel)) srv api_url job_id st =
           (Returned \<lparr>kw_status = status p2, kw_total = total p2, kw_completed = completed p2,
                      credits_used = creditsUsed p2, expires_at = expiresAt p2,
                      kw_data = [a, b, c], kw_next = None, kw_error = error p2\<rparr>, st2)"
    using assms(1-5,12) by (simp add: check_crawl_status_def pg build_response_def del: paginate.simps)
  have B: "monitor_job_status (Suc (Suc (Suc fuel))) srv api_url job_id poll_interval st =
           (Returned (p2\<lparr>data := Some [a, b, c]\<rparr>), st2)"
    using assms(1-5) by (simp add: mp del: monitor_paginate.simps)
  from A B show ?thesis by blast
qed

text \<open>
  A server with the two pages, which differ in every scalar field: the result has the
  second page's.
\<close>

theorem C2_pagination_aggregation_witness:
  "check_crawl_status (Suc (Suc 0))
     (\<lambda>n rq.
        if rq = GET ''https://api.firecrawl.dev/v1/crawl/job-1'' then
          Reply \<lparr>status_code = 200,
                 body = Json \<lparr>status = Some ''completed'', total = Some 2, completed = Some 2,
                              creditsUsed = Some 2, expiresAt = Some ''2026-01-01'',
                              data = Some [1, 2 :: nat], next = Some ''https://api.firecrawl.dev/next'',
                              error = None, details = None\<rparr>\<rparr>
        else if rq = GET ''https://api.firecrawl.dev/next'' then
          Reply \<lparr>status_code = 200,
                 body = Json \<lparr>status = Some ''completed'', total = Some 3, completed = Some 3,
                              creditsUsed = Some 3, expiresAt = Some ''2026-01-02'',
                              data = Some [3], next = None, error = None, details = None\<rparr>\<rparr>
        else Fails ''no route'')
     ''https://api.firecrawl.dev'' ''job-1'' \<lparr>calls = 0, trace = []\<rparr> =
   (Returned \<lparr>kw_status = Some ''completed'', kw_total = Some 3, kw_completed = Some 3,
              credits_used = Some 3, expires_at = Some ''2026-01-02'', kw_data = [1, 2, 3],
              kw_next = None, kw_error = None\<rparr>,
    \<lparr>calls = 2,
     trace = [Requested (GET ''https://api.firecrawl.dev/v1/crawl/job-1''),
              Requested (GET ''https://api.firecrawl.dev/next'')]\<rparr>) \<and>
   monitor_job_status (Suc (Suc (Suc 0)))
     (\<lambda>n rq.
        if rq = GET ''https://api.firecrawl.dev/v1/crawl/job-1'' then
          Reply \<lparr>status_code = 200,
                 body = Json \<lparr>status = Some ''completed'', total = Some 2, completed = Some 2,
                              creditsUsed = Some 2, expiresAt = Some ''2026-01-01'',
                              data = Some [1, 2 :: nat], next = Some ''https://api.firecrawl.dev/next'',
                              error = None, details = None\<rparr>\<rparr>
        else if rq = GET ''https://api.firecrawl.dev/next'' then
          Reply \<lparr>status_code = 200,
                 body = Json \<lparr>status = Some ''completed'', total = Some 3, completed = Some 3,
                              creditsUsed = Some 3, expiresAt = Some ''2026-01-02'',
                              data = Some [3], next = None, error = None, details = None\<rparr>\<rparr>
        else Fails ''no route'')
     ''https://api.firecrawl.dev'' ''job-1'' 2 \<lparr>calls = 0, trace = []\<rparr> =
   (Returned \<lparr>status = Some ''completed'', total = Some 3, completed = Some 3,
              creditsUsed = Some 3, expiresAt = Some ''2026-01-02'', data = Some [1, 2, 3],
              next = None, error = None, details = None\<rparr>,
    \<lparr>calls = 2,
     trace = [Requested (GET ''https://api.firecrawl.dev/v1/crawl/job-1''),
              Requested (GET ''https://api.firecrawl.dev/next'')]\<rparr>)"
proof -
  let ?p1 = "\<lparr>status = Some ''completed'', total = Some 2, completed = Some 2,
              creditsUsed = Some 2, expiresAt = Some ''2026-01-01'',
              data = Some [1, 2 :: nat], next = Some ''https://api.firecrawl.dev/next'',
              error = None, details = None\<rparr>"
  let ?p2 = "\<lparr>status = Some ''completed'', total = Some 3, completed = Some 3,
              creditsUsed = Some 3, expiresAt = Some ''2026-01-02'',
              data = Some [3 :: nat], next = None, error = None, details = None\<rparr>"
  let ?srv = "\<lambda>(n :: nat) rq.
        if rq = GET ''https://api.firecrawl.dev/v1/crawl/job-1'' then
          Reply \<lparr>status_code = 200, body = Json ?p1\<rparr>
        else if rq = GET ''https://api.firecrawl.dev/next'' then
          Reply \<lparr>status_code = 200, body = Json ?p2\<rparr>
        else Fails ''no route''"
  let ?st1 = "\<lparr>calls = 1, trace = [Requested (GET ''https://api.firecrawl.dev/v1/crawl/job-1'')]\<rparr>"
  let ?st2 = "\<lparr>calls = 2, trace = [Requested (GET ''https://api.firecrawl.dev/v1/crawl/job-1''),
                                   Requested (GET ''https://api.firecrawl.dev/next'')]\<rparr>"
  have q1: "get_request_default ?srv (''https://api.firecrawl.dev'' @ ''/v1/crawl/'' @ ''job-1'')
              \<lparr>calls = 0, trace = []\<rparr> = (Inr \<lparr>status_code = 200, body = Json ?p1\<rparr>, ?st1)"
    by (simp add: get_request_default_eval perform_simps)
  have q2: "get_request_default ?srv ''https://api.firecrawl.dev/next'' ?st1 =
              (Inr \<lparr>status_code = 200, body = Json ?p2\<rparr>, ?st2)"
    by (simp add: get_request_default_eval perform_simps)
  show ?thesis
    using C2_pagination_aggregation [where srv = ?srv and api_url = "''https://api.firecrawl.dev''"
        and job_id = "''job-1''" and st = "\<lparr>calls = 0, trace = []\<rparr>"
        and ?r1.0 = "\<lparr>status_code = 200, body = Json ?p1\<rparr>" and ?st1.0 = ?st1
        and ?p1.0 = ?p1 and a = 1 and b = 2 and url = "''https://api.firecrawl.dev/next''"
        and ?r2.0 = "\<lparr>status_code = 200, body = Json ?p2\<rparr>" and ?st2.0 = ?st2
        and ?p2.0 = ?p2 and c = 3 and fuel = 0 and poll_interval = 2, OF q1 _ _ _ _ _ _ q2]
    by simp
qed

text \<open>
  \<^verbatim>\<open>check_crawl_status\<close> (and \<^verbatim>\<open>check_batch_scrape_status\<close>, through the same
  loop \<open>paginate\<close>) stops at a page fetch that is not a 200 and returns what it has.
\<close>

lemma check_crawl_status_partial_pages:
  assumes "get_request_default srv (api_url @ ''/v1/crawl/'' @ job_id) st = (Inr r1, st1)"
    and "status_code r1 = 200" "body r1 = Json p1" "status p1 = Some ''completed''"
    and "data p1 = Some docs" "docs \<noteq> []" "next p1 = Some url" "url \<noteq> []"
    and "get_request_default srv url st1 = (Inr r2, st2)" "status_code r2 \<noteq> 200"
  shows "check_crawl_status (Suc fuel) srv api_url job_id st =
           (Returned (build_response p1 docs),
            emit (LogError (''Failed to fetch next page: '' @ str_int (status_code r2))) st2)"
  using assms by (simp add: check_crawl_status_def)

text \<open>The same for \<^verbatim>\<open>check_batch_scrape_status\<close>, whose job is completed at the first query.\<close>

lemma check_batch_scrape_status_partial_pages:
  assumes "get_request_default srv (api_url @ ''/v1/batch/scrape/'' @ job_id) st = (Inr r1, st1)"
    and "status_code r1 = 200" "body r1 = Json p1" "status p1 = Some ''completed''"
    and "data p1 = Some docs" "docs \<noteq> []" "next p1 = Some url" "url \<noteq> []"
    and "get_request_default srv url st1 = (Inr r2, st2)" "status_code r2 \<noteq> 200"
  shows "check_batch_scrape_status (Suc fuel) transform srv api_url job_id poll_interval st =
           (Returned (build_response p1 (map transform docs)),
            emit (LogError (''Failed to fetch next page: '' @ str_int (status_code r2))) st2)"
  using assms by (simp add: check_batch_scrape_status_def)

text \<open>
  Claim C3 fails on \<^verbatim>\<open>_monitor_job_status\<close>, whose pagination loop neither tests the
  status code of the page fetched nor catches anything: with a completed first page
  \<open>[1, 2]\<close> that names a next page, and a 500 reply without a JSON body to the fetch of
  that page, the call raises instead of returning the documents \<open>[1, 2]\<close>.
\<close>

theorem C3_monitor_raises_on_failed_page:
  "monitor_job_status (Suc (Suc (Suc 0)))
     (\<lambda>n rq.
        if rq = GET ''https://api.firecrawl.dev/v1/crawl/job-1'' then
          Reply \<lparr>status_code = 200,
                 body = Json \<lparr>status = Some ''completed'', total = Some 3, completed = Some 3,
                              creditsUsed = Some 3, expiresAt = Some ''2026-01-01'',
                              data = Some [1, 2 :: nat], next = Some ''https://api.firecrawl.dev/next'',
                              error = None, details = None\<rparr>\<rparr>
        else Reply \<lparr>status_code = 500, body = NotJson\<rparr>)
     ''https://api.firecrawl.dev'' ''job-1'' 2 \<lparr>calls = 0, trace = []\<rparr> =
   (Raised (Exception ''Failed to parse Firecrawl response as JSON.''),
    \<lparr>calls = 2,
     trace = [Requested (GET ''https://api.firecrawl.dev/v1/crawl/job-1''),
              Requested (GET ''https://api.firecrawl.dev/next'')]\<rparr>)"
  by (simp add: get_request_default_eval perform_simps)

subsection \<open>Polling\<close>

text \<open>
  On a status of the in-progress group \<^verbatim>\<open>_monitor_job_status\<close> sleeps
  \<open>max poll_interval 2\<close> seconds and polls again.
\<close>

lemma monitor_sleeps_floor:
  assumes "get_request_default srv (api_url @ ''/v1/crawl/'' @ job_id) st = (Inr r, st1)"
    and "status_code r = 200" "body r = Json status_data" "status status_data = Some s"
    and "s \<in> set in_progress"
  shows "monitor_job_status (Suc fuel) srv api_url job_id poll_interval st =
           monitor_job_status fuel srv api_url job_id (max poll_interval 2)
             (emit (Slept (real_of_int (max poll_interval 2))) st1)"
proof -
  have "s \<noteq> ''completed''" using assms(5) by (auto simp: in_progress_def)
  moreover have "time_sleep (real_of_int (max poll_interval 2)) st1 =
      Inr (emit (Slept (real_of_int (max poll_interval 2))) st1)"
    by (rule time_sleep_nonneg) simp
  ultimately show ?thesis using assms by (simp add: Let_def)
qed

lemma monitor_job_status_more_fuel:
  "monitor_job_status fuel srv api_url job_id poll_interval st = (res, st') \<Longrightarrow> res \<noteq> OutOfFuel \<Longrightarrow>
   monitor_job_status (fuel + extra) srv api_url job_id poll_interval st = (res, st')"
proof (induction fuel arbitrary: poll_interval st)
  case 0
  then show ?case by simp
next
  case (Suc fuel)
  show ?case
  proof (cases "get_request_default srv (api_url @ ''/v1/crawl/'' @ job_id) st")
    case (Pair q st1)
    show ?thesis
    proof (cases q)
      case (Inl e)
      with Pair Suc.prems show ?thesis by simp
    next
      case (Inr r)
      show ?thesis
      proof (cases "status_code r = 200")
        case False
        with Pair Inr Suc.prems show ?thesis by simp
      next
        case True
        show ?thesis
        proof (cases "body r")
          case NotJson
          with Pair Inr True Suc.prems show ?thesis by simp
        next
          case (Json sd)
          show ?thesis
          proof (cases "status sd")
            case None
            with Pair Inr True Json Suc.prems show ?thesis by simp
          next
            case (Some s)
            consider (fin) "s = ''completed''" | (wait) "s \<noteq> ''completed''" "s \<in> set in_progress"
              | (other) "s \<noteq> ''completed''" "s \<notin> set in_progress" by blast
            then show ?thesis
            proof cases
              case fin
              show ?thesis
              proof (cases "data sd")
                case None
                with Pair Inr True Json Some fin Suc.prems show ?thesis by simp
              next
                case (Some docs)
                obtain pres st2 where pg: "monitor_paginate fuel srv sd docs st1 = (pres, st2)"
                  by (cases "monitor_paginate fuel srv sd docs st1")
                have ne: "pres \<noteq> OutOfFuel"
                  using Pair Inr True Json \<open>status sd = Some s\<close> fin Some pg Suc.prems
                  by (cases pres) auto
                from monitor_paginate_more_fuel [OF pg ne, of extra]
                show ?thesis
                  using Pair Inr True Json \<open>status sd = Some s\<close> fin Some pg Suc.prems by simp
              qed
            next
              case wait
              let ?p = "max poll_interval 2"
              have sl: "time_sleep (real_of_int ?p) st1 = Inr (emit (Slept (real_of_int ?p)) st1)"
                by (rule time_sleep_nonneg) simp
              have "monitor_job_status fuel srv api_url job_id ?p (emit (Slept (real_of_int ?p)) st1) = (res, st')"
                using Pair Inr True Json Some wait sl Suc.prems by (simp add: Let_def)
              from Suc.IH [OF this Suc.prems(2)] show ?thesis
                using Pair Inr True Json Some wait sl by (simp add: Let_def)
            next
              case other
              with Pair Inr True Json Some Suc.prems show ?thesis by simp
            qed
          qed
        qed
      qed
    qed
  qed
qed

text \<open>
  Claim C4 fails on \<^verbatim>\<open>check_batch_scrape_status\<close>, which sleeps for
  \<^verbatim>\<open>poll_interval\<close> as it is given: with \<^verbatim>\<open>poll_interval = 0\<close> and the statuses
  \<^verbatim>\<open>pending\<close>, \<^verbatim>\<open>completed\<close> the sleep between the two queries is of 0 seconds,
  not of 2.
\<close>

theorem C4_batch_sleeps_zero:
  "check_batch_scrape_status (Suc (Suc 0)) (\<lambda>d. d)
     (\<lambda>n rq.
        if n = 0 then
          Reply \<lparr>status_code = 200,
                 body = Json \<lparr>status = Some ''pending'', total = Some 2, completed = Some 0,
                              creditsUsed = Some 0, expiresAt = Some ''2026-01-01'',
                              data = Some ([] :: nat list), next = None, error = None, details = None\<rparr>\<rparr>
        else
          Reply \<lparr>status_code = 200,
                 body = Json \<lparr>status = Some ''completed'', total = Some 2, completed = Some 2,
                              creditsUsed = Some 2, expiresAt = Some ''2026-01-01'',
                              data = Some [1, 2], next = None, error = None, details = None\<rparr>\<rparr>)
     ''https://api.firecrawl.dev'' ''job-1'' 0 \<lparr>calls = 0, trace = []\<rparr> =
   (Returned \<lparr>kw_status = Some ''completed'', kw_total = Some 2, kw_completed = Some 2,
              credits_used = Some 2, expires_at = Some ''2026-01-01'', kw_data = [1, 2],
              kw_next = None, kw_error = None\<rparr>,
    \<lparr>calls = 2,
     trace = [Requested (GET ''https://api.firecrawl.dev/v1/batch/scrape/job-1''),
              Printed ''pending'', Slept 0,
              Requested (GET ''https://api.firecrawl.dev/v1/batch/scrape/job-1'')]\<rparr>)"
  by (simp add: check_batch_scrape_status_def get_request_default_eval perform_simps
        time_sleep_def emit_def build_response_def)

text \<open>One iteration of the wait loop of \<^verbatim>\<open>check_batch_scrape_status\<close>.\<close>

lemma batch_wait_step:
  assumes "status status_data = Some s" "s \<noteq> ''completed''" "0 \<le> poll_interval"
    and "get_request_default srv url (emit (Slept (real_of_int poll_interval)) (emit (Printed s) st)) =
           (Inr r, st')"
    and "status_code r = 200" "body r = Json status_data'"
  shows "batch_wait (Suc fuel) srv url poll_interval status_data st =
           batch_wait fuel srv url poll_interval status_data' st'"
  using assms by (simp add: time_sleep_def)

lemma batch_wait_completed:
  "status status_data = Some ''completed'' \<Longrightarrow>
   batch_wait (Suc fuel) srv url poll_interval status_data st = (Returned status_data, st)"
  by simp

lemma batch_wait_more_fuel:
  "batch_wait fuel srv url poll_interval status_data st = (res, st') \<Longrightarrow> res \<noteq> OutOfFuel \<Longrightarrow>
   batch_wait (fuel + extra) srv url poll_interval status_data st = (res, st')"
proof (induction fuel arbitrary: status_data st)
  case 0
  then show ?case by simp
next
  case (Suc fuel)
  then show ?case
    by (auto split: option.splits if_splits sum.splits prod.splits body.splits)
qed

text \<open>
  While the server reports one and the same status other than \<^verbatim>\<open>completed\<close>, be it
  \<^verbatim>\<open>failed\<close>, the wait loop of \<^verbatim>\<open>check_batch_scrape_status\<close> neither returns
  nor raises, whatever the fuel.
\<close>

lemma batch_wait_never_leaves:
  assumes "\<forall>n rq. srv n rq = Reply \<lparr>status_code = 200, body = Json status_data\<rparr>"
    and "status status_data = Some s" "s \<noteq> ''completed''" "0 \<le> poll_interval"
  shows "fst (batch_wait fuel srv url poll_interval status_data st) = OutOfFuel"
proof (induction fuel arbitrary: st)
  case 0
  then show ?case by simp
next
  case (Suc fuel)
  have "get_request_default srv url (emit (Slept (real_of_int poll_interval)) (emit (Printed s) st)) =
          (Inr \<lparr>status_code = 200, body = Json status_data\<rparr>,
           \<lparr>calls = Suc (calls st),
            trace = trace st @ [Printed s, Slept (real_of_int poll_interval), Requested (GET url)]\<rparr>)"
    using assms(1) by (simp add: get_request_default_eval perform_simps emit_def)
  from batch_wait_step [OF assms(2,3,4) this, where fuel = fuel] Suc.IH show ?case by simp
qed

text \<open>
  Claim C1, as amended. A 200 reply to the status query of \<^verbatim>\<open>_monitor_job_status\<close>
  with the status \<open>s\<close>: if \<open>s\<close> is one of active, paused, pending, queued, waiting,
  scraping the poller sleeps \<open>max poll_interval 2\<close> and queries again; if \<open>s\<close> is
  \<^verbatim>\<open>completed\<close> and the reply has a \<^verbatim>\<open>'data'\<close> key the poll ends and returns what
  the walk of the pages returns; if \<open>s\<close> is \<^verbatim>\<open>completed\<close> and \<^verbatim>\<open>'data'\<close> is
  missing it raises "Crawl job completed but no data was returned"; for every other \<open>s\<close>
  it raises an exception whose message ends with \<open>s\<close>. In the wait loop of
  \<^verbatim>\<open>check_batch_scrape_status\<close> a status of the first group makes the poller print it,
  sleep \<^verbatim>\<open>poll_interval\<close> and go on with the reply to the next query, and
  \<^verbatim>\<open>completed\<close> ends the loop.
\<close>

theorem C1_status_classification:
  "(get_request_default srv (api_url @ ''/v1/crawl/'' @ job_id) st = (Inr r, st1) \<and>
    status_code r = 200 \<and> body r = Json status_data \<and> status status_data = Some s \<longrightarrow>
      (s \<in> set in_progress \<longrightarrow>
         monitor_job_status (Suc fuel) srv api_url job_id poll_interval st =
           monitor_job_status fuel srv api_url job_id (max poll_interval 2)
             (emit (Slept (real_of_int (max poll_interval 2))) st1)) \<and>
      (s = ''completed'' \<and> data status_data = Some docs \<and>
       monitor_paginate fuel srv status_data docs st1 = (Returned (last_page, docs'), st2) \<longrightarrow>
         monitor_job_status (Suc fuel) srv api_url job_id poll_interval st =
           (Returned (last_page\<lparr>data := Some docs'\<rparr>), st2)) \<and>
      (s = ''completed'' \<and> data status_data = None \<longrightarrow>
         monitor_job_status (Suc fuel) srv api_url job_id poll_interval st =
           (Raised (Exception ''Crawl job completed but no data was returned''), st1)) \<and>
      (s \<noteq> ''completed'' \<and> s \<notin> set in_progress \<longrightarrow>
         monitor_job_status (Suc fuel) srv api_url job_id poll_interval st =
           (Raised (Exception (''Crawl job failed or was stopped. Status: '' @ s)), st1))) \<and>
   (status batch_data = Some s' \<and> s' \<in> set in_progress \<and> 0 \<le> batch_interval \<and>
    get_request_default srv url
      (emit (Slept (real_of_int batch_interval)) (emit (Printed s') st')) = (Inr r', st'') \<and>
    status_code r' = 200 \<and> body r' = Json batch_data' \<longrightarrow>
      batch_wait (Suc fuel) srv url batch_interval batch_data st' =
        batch_wait fuel srv url batch_interval batch_data' st'') \<and>
   (status batch_data = Some ''completed'' \<longrightarrow>
      batch_wait (Suc fuel) srv url batch_interval batch_data st' = (Returned batch_data, st'))"
proof -
  have M: "get_request_default srv (api_url @ ''/v1/crawl/'' @ job_id) st = (Inr r, st1) \<and>
    status_code r = 200 \<and> body r = Json status_data \<and> status status_data = Some s \<longrightarrow>
      (s \<in> set in_progress \<longrightarrow>
         monitor_job_status (Suc fuel) srv api_url job_id poll_interval st =
           monitor_job_status fuel srv api_url job_id (max poll_interval 2)
             (emit (Slept (real_of_int (max poll_interval 2))) st1)) \<and>
      (s = ''completed'' \<and> data status_data = Some docs \<and>
       monitor_paginate fuel srv status_data docs st1 = (Returned (last_page, docs'), st2) \<longrightarrow>
         monitor_job_status (Suc fuel) srv api_url job_id poll_interval st =
           (Returned (last_page\<lparr>data := Some docs'\<rparr>), st2)) \<and>
      (s = ''completed'' \<and> data status_data = None \<longrightarrow>
         monitor_job_status (Suc fuel) srv api_url job_id poll_interval st =
           (Raised (Exception ''Crawl job completed but no data was returned''), st1)) \<and>
      (s \<noteq> ''completed'' \<and> s \<notin> set in_progress \<longrightarrow>
         monitor_job_status (Suc fuel) srv api_url job_id poll_interval st =
           (Raised (Exception (''Crawl job failed or was stopped. Status: '' @ s)), st1))"
  proof (intro impI)
    assume q: "get_request_default srv (api_url @ ''/v1/crawl/'' @ job_id) st = (Inr r, st1) \<and>
      status_code r = 200 \<and> body r = Json status_data \<and> status status_data = Some s"
    then have q1: "get_request_default srv (api_url @ ''/v1/crawl/'' @ job_id) st = (Inr r, st1)"
      and q2: "status_code r = 200" and q3: "body r = Json status_data"
      and q4: "status status_data = Some s"
      by simp_all
    have A: "s \<in> set in_progress \<longrightarrow>
         monitor_job_status (Suc fuel) srv api_url job_id poll_interval st =
           monitor_job_status fuel srv api_url job_id (max poll_interval 2)
             (emit (Slept (real_of_int (max poll_interval 2))) st1)"
      using monitor_sleeps_floor [OF q1 q2 q3 q4] by blast
    have B: "s = ''completed'' \<and> data status_data = Some docs \<and>
       monitor_paginate fuel srv status_data docs st1 = (Returned (last_page, docs'), st2) \<longrightarrow>
         monitor_job_status (Suc fuel) srv api_url job_id poll_interval st =
           (Returned (last_page\<lparr>data := Some docs'\<rparr>), st2)"
      using q1 q2 q3 q4 by simp
    have C: "s = ''completed'' \<and> data status_data = None \<longrightarrow>
         monitor_job_status (Suc fuel) srv api_url job_id poll_interval st =
           (Raised (Exception ''Crawl job completed but no data was returned''), st1)"
      using q1 q2 q3 q4 by simp
    have D: "s \<noteq> ''completed'' \<and> s \<notin> set in_progress \<longrightarrow>
         monitor_job_status (Suc fuel) srv api_url job_id poll_interval st =
           (Raised (Exception (''Crawl job failed or was stopped. Status: '' @ s)), st1)"
      using q1 q2 q3 q4 by simp
    from A B C D show "(s \<in> set in_progress \<longrightarrow>
         monitor_job_status (Suc fuel) srv api_url job_id poll_interval st =
           monitor_job_status fuel srv api_url job_id (max poll_interval 2)
             (emit (Slept (real_of_int (max poll_interval 2))) st1)) \<and>
      (s = ''completed'' \<and> data status_data = Some docs \<and>
       monitor_paginate fuel srv status_data docs st1 = (Returned (last_page, docs'), st2) \<longrightarrow>
         monitor_job_status (Suc fuel) srv api_url job_id poll_interval st =
           (Returned (last_page\<lparr>data := Some docs'\<rparr>), st2)) \<and>
      (s = ''completed'' \<and> data status_data = None \<longrightarrow>
         monitor_job_status (Suc fuel) srv api_url job_id poll_interval st =
           (Raised (Exception ''Crawl job completed but no data was returned''), st1)) \<and>
      (s \<noteq> ''completed'' \<and> s \<notin> set in_progress \<longrightarrow>
         monitor_job_status (Suc fuel) srv api_url job_id poll_interval st =
           (Raised (Exception (''Crawl job failed or was stopped. Status: '' @ s)), st1))"
      by blast
  qed
  have E: "status batch_data = Some s' \<and> s' \<in> set in_progress \<and> 0 \<le> batch_interval \<and>
    get_request_default srv url
      (emit (Slept (real_of_int batch_interval)) (emit (Printed s') st')) = (Inr r', st'') \<and>
    status_code r' = 200 \<and> body r' = Json batch_data' \<longrightarrow>
      batch_wait (Suc fuel) srv url batch_interval batch_data st' =
        batch_wait fuel srv url batch_interval batch_data' st''"
  proof
    assume h: "status batch_data = Some s' \<and> s' \<in> set in_progress \<and> 0 \<le> batch_interval \<and>
      get_request_default srv url
        (emit (Slept (real_of_int batch_interval)) (emit (Printed s') st')) = (Inr r', st'') \<and>
      status_code r' = 200 \<and> body r' = Json batch_data'"
    then have "s' \<noteq> ''completed''" by (auto simp: in_progress_def)
    with h show "batch_wait (Suc fuel) srv url batch_interval batch_data st' =
        batch_wait fuel srv url batch_interval batch_data' st''"
      by (intro batch_wait_step [where s = s' and r = r']) auto
  qed
  have F: "status batch_data = Some ''completed'' \<longrightarrow>
      batch_wait (Suc fuel) srv url batch_interval batch_data st' = (Returned batch_data, st')"
    by simp
  from M E F show ?thesis by blast
qed

text \<open>
  A crawl that is \<^verbatim>\<open>scraping\<close> at the first query and \<^verbatim>\<open>completed\<close> at the
  second, polled with \<^verbatim>\<open>poll_interval = 0\<close>; a crawl that is \<^verbatim>\<open>cancelled\<close>; and
  the wait loop of the batch poller on the same two statuses, with \<^verbatim>\<open>poll_interval = 5\<close>.
\<close>

theorem C1_status_classification_witness:
  "monitor_job_status (Suc (Suc (Suc 0)))
     (\<lambda>n rq. Reply \<lparr>status_code = 200,
                body = Json \<lparr>status = Some (if n = 0 then ''scraping'' else ''completed''),
                             total = Some 1, completed = Some 1, creditsUsed = Some 1,
                             expiresAt = Some ''2026-01-01'', data = Some [7 :: nat], next = None,
                             error = None, details = None\<rparr>\<rparr>)
     ''https://api.firecrawl.dev'' ''job-1'' 0 \<lparr>calls = 0, trace = []\<rparr> =
   (Returned \<lparr>status = Some ''completed'', total = Some 1, completed = Some 1, creditsUsed = Some 1,
              expiresAt = Some ''2026-01-01'', data = Some [7], next = None, error = None,
              details = None\<rparr>,
    \<lparr>calls = 2,
     trace = [Requested (GET ''https://api.firecrawl.dev/v1/crawl/job-1''), Slept 2,
              Requested (GET ''https://api.firecrawl.dev/v1/crawl/job-1'')]\<rparr>) \<and>
   monitor_job_status (Suc 0)
     (\<lambda>n rq. Reply \<lparr>status_code = 200,
                body = Json \<lparr>status = Some ''cancelled'', total = None, completed = None,
                             creditsUsed = None, expiresAt = None, data = (None :: nat list option),
                             next = None, error = None, details = None\<rparr>\<rparr>)
     ''https://api.firecrawl.dev'' ''job-1'' 2 \<lparr>calls = 0, trace = []\<rparr> =
   (Raised (Exception ''Crawl job failed or was stopped. Status: cancelled''),
    \<lparr>calls = 1, trace = [Requested (GET ''https://api.firecrawl.dev/v1/crawl/job-1'')]\<rparr>) \<and>
   batch_wait (Suc (Suc 0))
     (\<lambda>n rq. Reply \<lparr>status_code = 200,
                body = Json \<lparr>status = Some (if n = 0 then ''scraping'' else ''completed''),
                             total = Some 1, completed = Some 1, creditsUsed = Some 1,
                             expiresAt = Some ''2026-01-01'', data = Some [7 :: nat], next = None,
                             error = None, details = None\<rparr>\<rparr>)
     ''https://api.firecrawl.dev/v1/batch/scrape/job-1'' 5
     \<lparr>status = Some ''scraping'', total = Some 1, completed = Some 1, creditsUsed = Some 1,
      expiresAt = Some ''2026-01-01'', data = Some [7], next = None, error = None, details = None\<rparr>
     \<lparr>calls = 1, trace = [Requested (GET ''https://api.firecrawl.dev/v1/batch/scrape/job-1'')]\<rparr> =
   (Returned \<lparr>status = Some ''completed'', total = Some 1, completed = Some 1, creditsUsed = Some 1,
              expiresAt = Some ''2026-01-01'', data = Some [7], next = None, error = None,
              details = None\<rparr>,
    \<lparr>calls = 2,
     trace = [Requested (GET ''https://api.firecrawl.dev/v1/batch/scrape/job-1''),
              Printed ''scraping'', Slept 5,
              Requested (GET ''https://api.firecrawl.dev/v1/batch/scrape/job-1'')]\<rparr>)"
proof -
  let ?page = "\<lambda>n :: nat. \<lparr>status = Some (if n = 0 then ''scraping'' else ''completed''),
                             total = Some 1, completed = Some 1, creditsUsed = Some 1,
                             expiresAt = Some ''2026-01-01'', data = Some [7 :: nat], next = None,
                             error = None, details = None\<rparr>"
  let ?srv = "\<lambda>(n :: nat) (rq :: request). Reply \<lparr>status_code = 200, body = Json (?page n)\<rparr>"
  let ?gone = "\<lparr>status = Some ''cancelled'', total = None, completed = None,
                creditsUsed = None, expiresAt = None, data = (None :: nat list option),
                next = None, error = None, details = None\<rparr>"
  let ?srv2 = "\<lambda>(n :: nat) (rq :: request). Reply \<lparr>status_code = 200, body = Json ?gone\<rparr>"
  let ?u = "''https://api.firecrawl.dev/v1/crawl/job-1''"
  let ?v = "''https://api.firecrawl.dev/v1/batch/scrape/job-1''"
  let ?st1 = "\<lparr>calls = 1, trace = [Requested (GET ?u)]\<rparr>"
  let ?sb1 = "\<lparr>calls = 1, trace = [Requested (GET ?v)]\<rparr>"
  let ?sb2 = "\<lparr>calls = 2, trace = [Requested (GET ?v), Printed ''scraping'', Slept 5, Requested (GET ?v)]\<rparr>"
  have q1: "get_request_default ?srv (''https://api.firecrawl.dev'' @ ''/v1/crawl/'' @ ''job-1'')
              \<lparr>calls = 0, trace = []\<rparr> = (Inr \<lparr>status_code = 200, body = Json (?page 0)\<rparr>, ?st1)"
    by (simp add: get_request_default_eval perform_simps)
  have q2: "get_request_default ?srv2 (''https://api.firecrawl.dev'' @ ''/v1/crawl/'' @ ''job-1'')
              \<lparr>calls = 0, trace = []\<rparr> = (Inr \<lparr>status_code = 200, body = Json ?gone\<rparr>, ?st1)"
    by (simp add: get_request_default_eval perform_simps)
  have q3: "get_request_default ?srv ?v (emit (Slept (real_of_int 5)) (emit (Printed ''scraping'') ?sb1)) =
              (Inr \<lparr>status_code = 200, body = Json (?page 1)\<rparr>, ?sb2)"
    by (simp add: get_request_default_eval perform_simps emit_def)
  have step: "monitor_job_status (Suc (Suc (Suc 0))) ?srv ''https://api.firecrawl.dev'' ''job-1'' 0
             \<lparr>calls = 0, trace = []\<rparr> =
           monitor_job_status (Suc (Suc 0)) ?srv ''https://api.firecrawl.dev'' ''job-1'' 2
             \<lparr>calls = 1, trace = [Requested (GET ?u), Slept 2]\<rparr>"
    using q1 C1_status_classification [where srv = ?srv and api_url = "''https://api.firecrawl.dev''"
        and job_id = "''job-1''" and st = "\<lparr>calls = 0, trace = []\<rparr>"
        and r = "\<lparr>status_code = 200, body = Json (?page 0)\<rparr>" and ?st1.0 = ?st1
        and status_data = "?page 0" and s = "''scraping''" and fuel = "Suc (Suc 0)"
        and poll_interval = 0, THEN conjunct1]
    by (simp add: in_progress_def emit_def)
  have a: "monitor_job_status (Suc (Suc (Suc 0))) ?srv ''https://api.firecrawl.dev'' ''job-1'' 0
             \<lparr>calls = 0, trace = []\<rparr> =
           (Returned (?page 1),
            \<lparr>calls = 2, trace = [Requested (GET ?u), Slept 2, Requested (GET ?u)]\<rparr>)"
    unfolding step by (simp add: get_request_default_eval perform_simps)
  have b: "monitor_job_status (Suc 0) ?srv2 ''https://api.firecrawl.dev'' ''job-1'' 2
             \<lparr>calls = 0, trace = []\<rparr> =
           (Raised (Exception ''Crawl job failed or was stopped. Status: cancelled''), ?st1)"
    using q2 C1_status_classification [where srv = ?srv2 and api_url = "''https://api.firecrawl.dev''"
        and job_id = "''job-1''" and st = "\<lparr>calls = 0, trace = []\<rparr>"
        and r = "\<lparr>status_code = 200, body = Json ?gone\<rparr>" and ?st1.0 = ?st1
        and status_data = ?gone and s = "''cancelled''" and fuel = 0
        and poll_interval = 2, THEN conjunct1]
    by (simp add: in_progress_def)
  have c0: "batch_wait (Suc (Suc 0)) ?srv ?v 5 (?page 0) ?sb1 = batch_wait (Suc 0) ?srv ?v 5 (?page 1) ?sb2"
    using q3 C1_status_classification [where srv = ?srv and url = ?v and batch_data = "?page 0"
        and s' = "''scraping''" and batch_interval = 5 and st' = ?sb1
        and r' = "\<lparr>status_code = 200, body = Json (?page 1)\<rparr>" and st'' = ?sb2
        and batch_data' = "?page 1" and fuel = "Suc 0", THEN conjunct2, THEN conjunct1]
    by (simp add: in_progress_def)
  have c: "batch_wait (Suc (Suc 0)) ?srv ?v 5 (?page 0) ?sb1 = (Returned (?page 1), ?sb2)"
    unfolding c0 by simp
  from a b c show ?thesis by simp
qed

text \<open>
  The claim C1 as stated fails twice. \<^verbatim>\<open>_monitor_job_status\<close> raises on a
  \<^verbatim>\<open>completed\<close> reply that has no \<^verbatim>\<open>'data'\<close> key, where the claim has the poll
  succeed. \<^verbatim>\<open>check_batch_scrape_status\<close> on the status \<^verbatim>\<open>failed\<close> raises
  nothing: it prints the status, sleeps and queries again, as long as the fuel lasts.
\<close>

theorem C1_counterexample:
  "monitor_job_status (Suc 0)
     (\<lambda>n rq. Reply \<lparr>status_code = 200,
                body = Json \<lparr>status = Some ''completed'', total = Some 0, completed = Some 0,
                             creditsUsed = Some 0, expiresAt = Some ''2026-01-01'',
                             data = (None :: nat list option), next = None, error = None,
                             details = None\<rparr>\<rparr>)
     ''https://api.firecrawl.dev'' ''job-1'' 2 \<lparr>calls = 0, trace = []\<rparr> =
   (Raised (Exception ''Crawl job completed but no data was returned''),
    \<lparr>calls = 1, trace = [Requested (GET ''https://api.firecrawl.dev/v1/crawl/job-1'')]\<rparr>) \<and>
   check_batch_scrape_status (Suc (Suc 0)) (\<lambda>d. d)
     (\<lambda>n rq. Reply \<lparr>status_code = 200,
                body = Json \<lparr>status = Some ''failed'', total = Some 2, completed = Some 0,
                             creditsUsed = Some 0, expiresAt = Some ''2026-01-01'',
                             data = Some ([] :: nat list), next = None, error = None,
                             details = None\<rparr>\<rparr>)
     ''https://api.firecrawl.dev'' ''job-1'' 2 \<lparr>calls = 0, trace = []\<rparr> =
   (OutOfFuel,
    \<lparr>calls = 3,
     trace = [Requested (GET ''https://api.firecrawl.dev/v1/batch/scrape/job-1''),
              Printed ''failed'', Slept 2,
              Requested (GET ''https://api.firecrawl.dev/v1/batch/scrape/job-1''),
              Printed ''failed'', Slept 2,
              Requested (GET ''https://api.firecrawl.dev/v1/batch/scrape/job-1'')]\<rparr>)"
  by (simp add: check_batch_scrape_status_def get_request_default_eval perform_simps
        time_sleep_def emit_def)

subsection \<open>The unbound local variable\<close>

text \<open>
  The wait loop ends on a completed job only, and no loop raises the error of the
  unbound variable \<^verbatim>\<open>data\<close> by itself.
\<close>

lemma batch_wait_returned:
  "batch_wait fuel srv url poll_interval status_data st = (Returned sd, st') \<Longrightarrow>
   status sd = Some ''completed''"
proof (induction fuel arbitrary: status_data st)
  case 0
  then show ?case by simp
next
  case (Suc fuel)
  then show ?case
    by (auto split: option.splits if_splits sum.splits prod.splits body.splits)
qed

lemma retry_loop_raised:
  "retry_loop srv rq bf attempts prev st = (Inl e, st') \<Longrightarrow> e \<noteq> UnboundLocalError ''data''"
proof (induction attempts arbitrary: prev st)
  case Nil
  then show ?case by (auto split: option.splits)
next
  case (Cons a attempts)
  then show ?case
    by (auto simp: time_sleep_def split: prod.splits reply.splits if_splits sum.splits)
qed

lemma get_request_default_raised:
  "get_request_default srv url st = (Inl e, st') \<Longrightarrow> e \<noteq> UnboundLocalError ''data''"
  unfolding get_request_default_def get_request_def by (rule retry_loop_raised)

lemma handle_error_is_HTTPError: "handle_error r action \<noteq> UnboundLocalError v"
  by (simp add: handle_error_def Let_def split: body.splits)

lemma batch_wait_raised:
  "batch_wait fuel srv url poll_interval status_data st = (Raised e, st') \<Longrightarrow>
   e \<noteq> UnboundLocalError ''data''"
proof (induction fuel arbitrary: status_data st)
  case 0
  then show ?case by simp
next
  case (Suc fuel)
  then show ?case
    by (auto simp: time_sleep_def handle_error_is_HTTPError
          split: option.splits if_splits sum.splits prod.splits body.splits
          dest: get_request_default_raised)
qed

lemma paginate_raised:
  "paginate fuel srv status_data docs st = (Raised e, st') \<Longrightarrow> e = KeyError ''data''"
proof (induction fuel arbitrary: status_data docs st)
  case 0
  then show ?case by simp
next
  case (Suc fuel)
  then show ?case
    by (auto split: option.splits if_splits sum.splits prod.splits body.splits)
qed

text \<open>
  Claim C9, as amended. In \<^verbatim>\<open>check_crawl_status\<close> every 200 reply whose status is not
  \<^verbatim>\<open>completed\<close>, or that has no \<^verbatim>\<open>'data'\<close> key, ends in the unbound local
  variable \<^verbatim>\<open>data\<close>, whatever the batch endpoint would answer. In \<^verbatim>\<open>check_batch_scrape_status\<close> the call ends in the
  unbound local variable exactly when the wait loop ends on a reply, \<^verbatim>\<open>completed\<close>
  then, that has no \<^verbatim>\<open>'data'\<close> key; a 200 reply whose status is not
  \<^verbatim>\<open>completed\<close> keeps the wait loop going: the poller prints the status, sleeps and
  goes on with the reply to the next query.
\<close>

theorem C9_unbound_data:
  "(get_request_default srv (api_url @ ''/v1/crawl/'' @ job_id) st = (Inr r, st1) \<and>
    status_code r = 200 \<and> body r = Json status_data \<and> status status_data = Some s \<and>
    (s \<noteq> ''completed'' \<or> data status_data = None) \<longrightarrow>
      check_crawl_status fuel srv api_url job_id st = (Raised (UnboundLocalError ''data''), st1)) \<and>
   (get_request_default srv (api_url @ ''/v1/batch/scrape/'' @ job_id) stb = (Inr rb, sb1) \<and>
    status_code rb = 200 \<and> body rb = Json first_data \<longrightarrow>
      (fst (check_batch_scrape_status fuel transform srv api_url job_id poll_interval stb) =
         Raised (UnboundLocalError ''data'') \<longleftrightarrow>
       (\<exists>sd sb2. batch_wait fuel srv (api_url @ ''/v1/batch/scrape/'' @ job_id) poll_interval
                    first_data sb1 = (Returned sd, sb2) \<and>
                  status sd = Some ''completed'' \<and> data sd = None))) \<and>
   (status first_data = Some s' \<and> s' \<noteq> ''completed'' \<and> 0 \<le> poll_interval \<and>
    get_request_default srv (api_url @ ''/v1/batch/scrape/'' @ job_id)
      (emit (Slept (real_of_int poll_interval)) (emit (Printed s') sb1)) = (Inr rb', sb') \<and>
    status_code rb' = 200 \<and> body rb' = Json second_data \<longrightarrow>
      batch_wait (Suc fuel') srv (api_url @ ''/v1/batch/scrape/'' @ job_id) poll_interval
        first_data sb1 =
      batch_wait fuel' srv (api_url @ ''/v1/batch/scrape/'' @ job_id) poll_interval
        second_data sb')"
proof -
  have A: "get_request_default srv (api_url @ ''/v1/crawl/'' @ job_id) st = (Inr r, st1) \<and>
    status_code r = 200 \<and> body r = Json status_data \<and> status status_data = Some s \<and>
    (s \<noteq> ''completed'' \<or> data status_data = None) \<longrightarrow>
      check_crawl_status fuel srv api_url job_id st = (Raised (UnboundLocalError ''data''), st1)"
    by (auto simp: check_crawl_status_def)
  let ?bw = "batch_wait fuel srv (api_url @ ''/v1/batch/scrape/'' @ job_id) poll_interval first_data sb1"
  have B: "get_request_default srv (api_url @ ''/v1/batch/scrape/'' @ job_id) stb = (Inr rb, sb1) \<and>
    status_code rb = 200 \<and> body rb = Json first_data \<longrightarrow>
      (fst (check_batch_scrape_status fuel transform srv api_url job_id poll_interval stb) =
         Raised (UnboundLocalError ''data'') \<longleftrightarrow>
       (\<exists>sd sb2. ?bw = (Returned sd, sb2) \<and> status sd = Some ''completed'' \<and> data sd = None))"
  proof
    assume q: "get_request_default srv (api_url @ ''/v1/batch/scrape/'' @ job_id) stb = (Inr rb, sb1) \<and>
      status_code rb = 200 \<and> body rb = Json first_data"
    then have q1: "get_request_default srv (api_url @ ''/v1/batch/scrape/'' @ job_id) stb = (Inr rb, sb1)"
      and q2: "status_code rb = 200" and q3: "body rb = Json first_data"
      by simp_all
    show "fst (check_batch_scrape_status fuel transform srv api_url job_id poll_interval stb) =
         Raised (UnboundLocalError ''data'') \<longleftrightarrow>
       (\<exists>sd sb2. ?bw = (Returned sd, sb2) \<and> status sd = Some ''completed'' \<and> data sd = None)"
    proof (cases ?bw)
      case (Pair res sb2)
      show ?thesis
      proof (cases res)
        case (Returned sd)
        have st: "status sd = Some ''completed''"
          using batch_wait_returned Pair Returned by blast
        show ?thesis
        proof (cases "data sd")
          case None
          then show ?thesis
            using q1 q2 q3 Pair Returned st by (simp add: check_batch_scrape_status_def)
        next
          case (Some docs)
          obtain pres sb3 where pg: "paginate fuel srv sd docs sb2 = (pres, sb3)"
            by (cases "paginate fuel srv sd docs sb2")
          have "pres \<noteq> Raised (UnboundLocalError ''data'')"
            using paginate_raised pg by fastforce
          then show ?thesis
            using q1 q2 q3 Pair Returned Some pg
            by (cases pres) (auto simp: check_batch_scrape_status_def)
        qed
      next
        case (Raised e)
        have "e \<noteq> UnboundLocalError ''data''" using batch_wait_raised Pair Raised by blast
        then show ?thesis
          using q1 q2 q3 Pair Raised by (simp add: check_batch_scrape_status_def)
      next
        case OutOfFuel
        then show ?thesis
          using q1 q2 q3 Pair by (simp add: check_batch_scrape_status_def)
      qed
    qed
  qed
  have C: "status first_data = Some s' \<and> s' \<noteq> ''completed'' \<and> 0 \<le> poll_interval \<and>
          get_request_default srv (api_url @ ''/v1/batch/scrape/'' @ job_id)
            (emit (Slept (real_of_int poll_interval)) (emit (Printed s') sb1)) = (Inr rb', sb') \<and>
          status_code rb' = 200 \<and> body rb' = Json second_data \<longrightarrow>
            batch_wait (Suc fuel') srv (api_url @ ''/v1/batch/scrape/'' @ job_id) poll_interval
              first_data sb1 =
            batch_wait fuel' srv (api_url @ ''/v1/batch/scrape/'' @ job_id) poll_interval
              second_data sb'"
    using batch_wait_step [where s = s' and r = rb'] by blast
  from A B C show ?thesis by blast
qed

text \<open>
  The crawl endpoint reports \<^verbatim>\<open>scraping\<close> while the batch endpoint does not answer
  at all; and a batch scrape reported as \<^verbatim>\<open>completed\<close> without a \<^verbatim>\<open>'data'\<close>
  key.
\<close>

theorem C9_unbound_data_witness:
  "check_crawl_status (Suc 0)
     (\<lambda>n rq.
        if rq = GET ''https://api.firecrawl.dev/v1/crawl/job-1'' then
          Reply \<lparr>status_code = 200,
                 body = Json \<lparr>status = Some ''scraping'', total = Some 2, completed = Some 0,
                              creditsUsed = Some 0, expiresAt = Some ''2026-01-01'',
                              data = (None :: nat list option), next = None, error = None,
                              details = None\<rparr>\<rparr>
        else Fails ''connection refused'')
     ''https://api.firecrawl.dev'' ''job-1'' \<lparr>calls = 0, trace = []\<rparr> =
   (Raised (UnboundLocalError ''data''),
    \<lparr>calls = 1, trace = [Requested (GET ''https://api.firecrawl.dev/v1/crawl/job-1'')]\<rparr>) \<and>
   fst (check_batch_scrape_status (Suc 0) (\<lambda>d. d)
     (\<lambda>n rq.
        Reply \<lparr>status_code = 200,
               body = Json \<lparr>status = Some ''completed'', total = Some 2, completed = Some 2,
                            creditsUsed = Some 2, expiresAt = Some ''2026-01-01'',
                            data = (None :: nat list option), next = None, error = None,
                            details = None\<rparr>\<rparr>)
     ''https://api.firecrawl.dev'' ''job-1'' 2 \<lparr>calls = 0, trace = []\<rparr>) =
   Raised (UnboundLocalError ''data'')"
proof -
  let ?busy = "\<lparr>status = Some ''scraping'', total = Some 2, completed = Some 0,
                creditsUsed = Some 0, expiresAt = Some ''2026-01-01'',
                data = (None :: nat list option), next = None, error = None, details = None\<rparr>"
  let ?bare = "\<lparr>status = Some ''completed'', total = Some 2, completed = Some 2,
                creditsUsed = Some 2, expiresAt = Some ''2026-01-01'',
                data = (None :: nat list option), next = None, error = None, details = None\<rparr>"
  let ?srv1 = "\<lambda>(n :: nat) rq.
        if rq = GET ''https://api.firecrawl.dev/v1/crawl/job-1'' then
          Reply \<lparr>status_code = 200, body = Json ?busy\<rparr>
        else Fails ''connection refused''"
  let ?srv2 = "\<lambda>(n :: nat) (rq :: request). Reply \<lparr>status_code = 200, body = Json ?bare\<rparr>"
  let ?u = "''https://api.firecrawl.dev/v1/crawl/job-1''"
  let ?v = "''https://api.firecrawl.dev/v1/batch/scrape/job-1''"
  have q1: "get_request_default ?srv1 (''https://api.firecrawl.dev'' @ ''/v1/crawl/'' @ ''job-1'')
              \<lparr>calls = 0, trace = []\<rparr> =
            (Inr \<lparr>status_code = 200, body = Json ?busy\<rparr>,
             \<lparr>calls = 1, trace = [Requested (GET ?u)]\<rparr>)"
    by (simp add: get_request_default_eval perform_simps)
  have q2: "get_request_default ?srv2 (''https://api.firecrawl.dev'' @ ''/v1/batch/scrape/'' @ ''job-1'')
              \<lparr>calls = 0, trace = []\<rparr> =
            (Inr \<lparr>status_code = 200, body = Json ?bare\<rparr>,
             \<lparr>calls = 1, trace = [Requested (GET ?v)]\<rparr>)"
    by (simp add: get_request_default_eval perform_simps)
  have a: "check_crawl_status (Suc 0) ?srv1 ''https://api.firecrawl.dev'' ''job-1''
             \<lparr>calls = 0, trace = []\<rparr> =
           (Raised (UnboundLocalError ''data''), \<lparr>calls = 1, trace = [Requested (GET ?u)]\<rparr>)"
    using q1 C9_unbound_data [where srv = ?srv1 and api_url = "''https://api.firecrawl.dev''"
        and job_id = "''job-1''" and st = "\<lparr>calls = 0, trace = []\<rparr>"
        and r = "\<lparr>status_code = 200, body = Json ?busy\<rparr>"
        and ?st1.0 = "\<lparr>calls = 1, trace = [Requested (GET ?u)]\<rparr>"
        and status_data = ?busy and s = "''scraping''" and fuel = "Suc 0", THEN conjunct1]
    by simp
  have b: "fst (check_batch_scrape_status (Suc 0) (\<lambda>d. d) ?srv2 ''https://api.firecrawl.dev''
                  ''job-1'' 2 \<lparr>calls = 0, trace = []\<rparr>) = Raised (UnboundLocalError ''data'')"
    using q2 C9_unbound_data [where srv = ?srv2 and api_url = "''https://api.firecrawl.dev''"
        and job_id = "''job-1''" and stb = "\<lparr>calls = 0, trace = []\<rparr>"
        and rb = "\<lparr>status_code = 200, body = Json ?bare\<rparr>"
        and ?sb1.0 = "\<lparr>calls = 1, trace = [Requested (GET ?v)]\<rparr>"
        and first_data = ?bare and fuel = "Suc 0" and transform = "\<lambda>d. d"
        and poll_interval = 2, THEN conjunct2, THEN conjunct1]
    by simp
  from a b show ?thesis by simp
qed

text \<open>
  The claim C9 as stated has \<^verbatim>\<open>check_batch_scrape_status\<close> raise on a 200 reply whose
  status is not \<^verbatim>\<open>completed\<close>. It does not: on \<^verbatim>\<open>scraping\<close> (and no
  \<^verbatim>\<open>'data'\<close> key) it sleeps, queries again and returns the completed result.
\<close>

theorem C9_batch_polls_unfinished_job:
  "check_batch_scrape_status (Suc (Suc 0)) (\<lambda>d. d)
     (\<lambda>n rq.
        if n = 0 then
          Reply \<lparr>status_code = 200,
                 body = Json \<lparr>status = Some ''scraping'', total = Some 2, completed = Some 1,
                              creditsUsed = Some 1, expiresAt = Some ''2026-01-01'',
                              data = (None :: nat list option), next = None, error = None,
                              details = None\<rparr>\<rparr>
        else
          Reply \<lparr>status_code = 200,
                 body = Json \<lparr>status = Some ''completed'', total = Some 2, completed = Some 2,
                              creditsUsed = Some 2, expiresAt = Some ''2026-01-01'',
                              data = Some [1, 2], next = None, error = None, details = None\<rparr>\<rparr>)
     ''https://api.firecrawl.dev'' ''job-1'' 2 \<lparr>calls = 0, trace = []\<rparr> =
   (Returned \<lparr>kw_status = Some ''completed'', kw_total = Some 2, kw_completed = Some 2,
              credits_used = Some 2, expires_at = Some ''2026-01-01'', kw_data = [1, 2],
              kw_next = None, kw_error = None\<rparr>,
    \<lparr>calls = 2,
     trace = [Requested (GET ''https://api.firecrawl.dev/v1/batch/scrape/job-1''),
              Printed ''scraping'', Slept 2,
              Requested (GET ''https://api.firecrawl.dev/v1/batch/scrape/job-1'')]\<rparr>)"
  by (simp add: check_batch_scrape_status_def get_request_default_eval perform_simps
        time_sleep_def emit_def build_response_def)

subsection \<open>Crawl watcher\<close>

text \<open>
  Listeners that return normally are all called, in the order of the list, each on the
  world the one before it left.
\<close>

lemma call_handlers_quiet:
  "\<forall>h\<in>set hs. \<forall>d w. fst (h d w) = None \<Longrightarrow>
   call_handlers hs detail w = (None, foldl (\<lambda>w h. snd (h detail w)) w hs)"
proof (induction hs arbitrary: w)
  case Nil
  then show ?case by simp
next
  case (Cons h hs)
  have "fst (h detail w) = None" using Cons.prems by simp
  then obtain w' where hw: "h detail w = (None, w')" by (cases "h detail w") auto
  have "call_handlers hs detail w' = (None, foldl (\<lambda>w h. snd (h detail w)) w' hs)"
    using Cons.IH Cons.prems by simp
  with hw show ?case by simp
qed

lemma dispatch_event_quiet:
  assumes "event_handlers watcher k = Some hs"
    and "\<forall>h\<in>set hs. \<forall>d w. fst (h d w) = None"
  shows "dispatch_event k detail watcher out =
           (None, out\<lparr>dispatched := dispatched out @ [(k, detail)],
                      world := foldl (\<lambda>w h. snd (h detail w)) (world out) hs\<rparr>)"
  using assms by (simp add: dispatch_event_def call_handlers_quiet)

lemma dispatch_event_unknown:
  assumes "event_handlers watcher k = None"
  shows "dispatch_event k detail watcher out =
           (None, out\<lparr>dispatched := dispatched out @ [(k, detail)]\<rparr>)"
  using assms by (simp add: dispatch_event_def)

lemma dispatch_documents_quiet:
  assumes "event_handlers watcher ''document'' = Some hs"
    and "\<forall>h\<in>set hs. \<forall>d w. fst (h d w) = None"
  shows "dispatch_documents docs watcher out =
           (None, out\<lparr>dispatched := dispatched out @
                         map (\<lambda>doc. (''document'', DocumentDetail doc (watcher_id watcher))) docs,
                      world := foldl (\<lambda>w doc. foldl (\<lambda>w h. snd (h (DocumentDetail doc (watcher_id watcher)) w)) w hs)
                                 (world out) docs\<rparr>)"
proof (induction docs arbitrary: out)
  case Nil
  then show ?case by simp
next
  case (Cons doc docs)
  show ?case
    by (simp add: dispatch_event_quiet [OF assms] Cons.IH)
qed

text \<open>
  Claim C6. A \<^verbatim>\<open>catchup\<close> frame with embedded status \<open>s\<close> and embedded documents
  \<open>docs\<close>, on a session whose \<^verbatim>\<open>document\<close> listeners return normally: the session
  status becomes \<open>s\<close>, the embedded documents are appended to the accumulated ones, and
  \<^verbatim>\<open>dispatch_event('document', ...)\<close> is called once for every accumulated document,
  old and new, in order; each call runs every registered listener, in registration order,
  on that document.
\<close>

theorem C6_catchup_replay:
  assumes "msg_type msg = Some ''catchup''"
    and "msg_data msg = Some (Snapshot (Some s) docs)"
    and "event_handlers watcher ''document'' = Some hs"
    and "\<forall>h\<in>set hs. \<forall>d w. fst (h d w) = None"
  shows "handle_message msg watcher out =
           (None,
            watcher\<lparr>watcher_status := s,
                    watcher_data := watcher_data watcher @ (case docs of None \<Rightarrow> [] | Some ds \<Rightarrow> ds)\<rparr>,
            out\<lparr>dispatched := dispatched out @
                   map (\<lambda>doc. (''document'', DocumentDetail doc (watcher_id watcher)))
                     (watcher_data watcher @ (case docs of None \<Rightarrow> [] | Some ds \<Rightarrow> ds)),
                world := foldl (\<lambda>w doc. foldl (\<lambda>w h. snd (h (DocumentDetail doc (watcher_id watcher)) w)) w hs)
                           (world out)
                           (watcher_data watcher @ (case docs of None \<Rightarrow> [] | Some ds \<Rightarrow> ds))\<rparr>)"
proof -
  let ?w2 = "watcher\<lparr>watcher_status := s,
                    watcher_data := watcher_data watcher @ (case docs of None \<Rightarrow> [] | Some ds \<Rightarrow> ds)\<rparr>"
  have h: "event_handlers ?w2 ''document'' = Some hs" using assms(3) by simp
  show ?thesis
    using assms(1,2) dispatch_documents_quiet [OF h assms(4), of "watcher_data ?w2" out]
    by (simp add: handle_message_def)
qed

text \<open>
  A fresh session with one recording listener and a catchup frame that carries three
  documents: exactly three \<^verbatim>\<open>document\<close> events, one per document.
\<close>

theorem C6_catchup_replay_witness:
  "handle_message
     \<lparr>msg_type = Some ''catchup'',
      msg_data = Some (Snapshot (Some ''scraping'') (Some [10, 20, 30 :: nat])),
      msg_error = None\<rparr>
     (add_event_listener ''document'' (\<lambda>d w. (None, w @ [d])) (init_watcher ''job-1''))
     \<lparr>dispatched = [], world = []\<rparr> =
   (None,
    (add_event_listener ''document'' (\<lambda>d w. (None, w @ [d])) (init_watcher ''job-1''))
      \<lparr>watcher_status := ''scraping'', watcher_data := [10, 20, 30]\<rparr>,
    \<lparr>dispatched = [(''document'', DocumentDetail 10 ''job-1''),
                   (''document'', DocumentDetail 20 ''job-1''),
                   (''document'', DocumentDetail 30 ''job-1'')],
     world = [DocumentDetail 10 ''job-1'', DocumentDetail 20 ''job-1'', DocumentDetail 30 ''job-1'']\<rparr>)"
proof -
  let ?h = "\<lambda>(d :: nat detail) (w :: nat detail list). (None :: error option, w @ [d])"
  let ?w = "add_event_listener ''document'' ?h (init_watcher ''job-1'')"
  have hs: "event_handlers ?w ''document'' = Some [?h]"
    by (simp add: add_event_listener_def init_watcher_def)
  have quiet: "\<forall>h\<in>set [?h]. \<forall>d w. fst (h d w) = None" by simp
  have wid: "watcher_id ?w = ''job-1''" "watcher_data ?w = []"
    by (simp_all add: add_event_listener_def init_watcher_def)
  show ?thesis
    using C6_catchup_replay [where msg = "\<lparr>msg_type = Some ''catchup'',
        msg_data = Some (Snapshot (Some ''scraping'') (Some [10, 20, 30 :: nat])), msg_error = None\<rparr>"
        and watcher = ?w and hs = "[?h]" and s = "''scraping''" and docs = "Some [10, 20, 30]"
        and out = "\<lparr>dispatched = [], world = []\<rparr>", OF _ _ hs quiet]
    by (simp add: wid)
qed

text \<open>
  The registry has the keys \<^verbatim>\<open>done\<close>, \<^verbatim>\<open>error\<close> and \<^verbatim>\<open>document\<close> from
  \<^verbatim>\<open>__init__\<close> on: no method adds or removes a key.
\<close>

lemma dom_init_watcher:
  "dom (event_handlers (init_watcher job_id)) = {''done'', ''error'', ''document''}"
  by (auto simp: init_watcher_def)

lemma dom_add_event_listener:
  "dom (event_handlers (add_event_listener k h watcher)) = dom (event_handlers watcher)"
  by (auto simp: add_event_listener_def split: option.splits)

lemma add_event_listener_appends:
  "event_handlers watcher k = Some hs \<Longrightarrow>
   event_handlers (add_event_listener k h watcher) k = Some (hs @ [h])"
  by (simp add: add_event_listener_def)

lemma handle_message_keeps_handlers:
  "handle_message msg watcher out = (e, watcher', out') \<Longrightarrow>
   event_handlers watcher' = event_handlers watcher \<and> watcher_id watcher' = watcher_id watcher"
  by (auto simp: handle_message_def Let_def split: option.splits if_splits payload.splits prod.splits)

text \<open>
  Claim C10. A frame whose type is none of \<^verbatim>\<open>done\<close>, \<^verbatim>\<open>error\<close>,
  \<^verbatim>\<open>catchup\<close>, \<^verbatim>\<open>document\<close> changes neither the session nor the outside: no
  event is dispatched. On a session whose registry has the three keys of
  \<^verbatim>\<open>__init__\<close>, \<^verbatim>\<open>add_event_listener\<close> with another kind returns the session
  unchanged, and \<^verbatim>\<open>dispatch_event\<close> with another kind calls no listener: the
  listeners' world is unchanged and nothing is raised.
\<close>

theorem C10_unknown_kinds_are_ignored:
  "(msg_type msg = Some t \<and> t \<notin> {''done'', ''error'', ''catchup'', ''document''} \<longrightarrow>
      handle_message msg watcher out = (None, watcher, out)) \<and>
   (dom (event_handlers watcher) = {''done'', ''error'', ''document''} \<and>
    k \<notin> {''done'', ''error'', ''document''} \<longrightarrow>
      add_event_listener k h watcher = watcher \<and>
      dispatch_event k detail watcher out =
        (None, out\<lparr>dispatched := dispatched out @ [(k, detail)]\<rparr>))"
proof -
  have A: "msg_type msg = Some t \<and> t \<notin> {''done'', ''error'', ''catchup'', ''document''} \<longrightarrow>
      handle_message msg watcher out = (None, watcher, out)"
    by (simp add: handle_message_def)
  have B: "dom (event_handlers watcher) = {''done'', ''error'', ''document''} \<and>
    k \<notin> {''done'', ''error'', ''document''} \<longrightarrow>
      add_event_listener k h watcher = watcher \<and>
      dispatch_event k detail watcher out =
        (None, out\<lparr>dispatched := dispatched out @ [(k, detail)]\<rparr>)"
  proof
    assume a: "dom (event_handlers watcher) = {''done'', ''error'', ''document''} \<and>
               k \<notin> {''done'', ''error'', ''document''}"
    then have "k \<notin> dom (event_handlers watcher)" by simp
    then have none: "event_handlers watcher k = None" by (simp add: domIff)
    show "add_event_listener k h watcher = watcher \<and>
      dispatch_event k detail watcher out =
        (None, out\<lparr>dispatched := dispatched out @ [(k, detail)]\<rparr>)"
      using none by (simp add: add_event_listener_def dispatch_event_unknown)
  qed
  from A B show ?thesis by blast
qed

text \<open>A frame of type \<^verbatim>\<open>ping\<close> and the event kind \<^verbatim>\<open>progress\<close> on a fresh session.\<close>

theorem C10_unknown_kinds_are_ignored_witness:
  "handle_message \<lparr>msg_type = Some ''ping'', msg_data = Some (Document (1 :: nat)), msg_error = None\<rparr>
     (init_watcher ''job-1'') \<lparr>dispatched = [], world = (0 :: nat)\<rparr> =
     (None, init_watcher ''job-1'', \<lparr>dispatched = [], world = 0\<rparr>) \<and>
   add_event_listener ''progress'' (\<lambda>d w. (None, Suc w)) (init_watcher ''job-1'' :: (nat, nat) crawl_watcher) =
     init_watcher ''job-1'' \<and>
   dispatch_event ''progress'' (DocumentDetail (1 :: nat) ''job-1'') (init_watcher ''job-1'')
     \<lparr>dispatched = [], world = (0 :: nat)\<rparr> =
     (None, \<lparr>dispatched = [(''progress'', DocumentDetail 1 ''job-1'')], world = 0\<rparr>)"
  using C10_unknown_kinds_are_ignored [where
      msg = "\<lparr>msg_type = Some ''ping'', msg_data = Some (Document (1 :: nat)), msg_error = None\<rparr>"
      and t = "''ping''" and watcher = "init_watcher ''job-1'' :: (nat, nat) crawl_watcher"
      and out = "\<lparr>dispatched = [], world = (0 :: nat)\<rparr>" and k = "''progress''"
      and h = "\<lambda>d w. (None, Suc w)" and detail = "DocumentDetail (1 :: nat) ''job-1''"]
    dom_init_watcher [of "''job-1''", where ?'a = nat and ?'b = nat]
  by simp

lemma handle_document_quiet:
  assumes "msg_type msg = Some ''document''" "msg_data msg = Some (Document d)"
    and "event_handlers watcher ''document'' = Some hs"
    and "\<forall>h\<in>set hs. \<forall>d w. fst (h d w) = None"
  shows "handle_message msg watcher out =
           (None, watcher\<lparr>watcher_data := watcher_data watcher @ [d]\<rparr>,
            out\<lparr>dispatched := dispatched out @ [(''document'', DocumentDetail d (watcher_id watcher))],
                world := foldl (\<lambda>w h. snd (h (DocumentDetail d (watcher_id watcher)) w)) (world out) hs\<rparr>)"
proof -
  let ?w1 = "watcher\<lparr>watcher_data := watcher_data watcher @ [d]\<rparr>"
  have h: "event_handlers ?w1 ''document'' = Some hs" using assms(3) by simp
  show ?thesis
    using assms(1,2) dispatch_event_quiet [OF h assms(4)]
    by (simp add: handle_message_def)
qed

lemma handle_done_quiet:
  assumes "msg_type msg = Some ''done''"
    and "event_handlers watcher ''done'' = Some hs"
    and "\<forall>h\<in>set hs. \<forall>d w. fst (h d w) = None"
  shows "handle_message msg watcher out =
           (None, watcher\<lparr>watcher_status := ''completed''\<rparr>,
            out\<lparr>dispatched := dispatched out @
                   [(''done'', DoneDetail ''completed'' (watcher_data watcher) (watcher_id watcher))],
                world := foldl (\<lambda>w h. snd (h (DoneDetail ''completed'' (watcher_data watcher) (watcher_id watcher)) w))
                           (world out) hs\<rparr>)"
proof -
  let ?w1 = "watcher\<lparr>watcher_status := ''completed''\<rparr>"
  have h: "event_handlers ?w1 ''done'' = Some hs" using assms(2) by simp
  show ?thesis
    using assms(1) dispatch_event_quiet [OF h assms(3)]
    by (simp add: handle_message_def)
qed

text \<open>
  Claim C8, as amended. The frames \<open>document(a)\<close>, \<open>document(b)\<close>, \<open>done\<close> on a session
  whose listeners return normally: the events dispatched are \<open>document(a)\<close>,
  \<open>document(b)\<close>, \<open>done\<close> in that order, each frame's listeners having run before the next
  frame is handled, and the listeners of one kind run in registration order (a new listener
  is appended to its kind's list). The two \<^verbatim>\<open>document\<close> frames leave the session status
  as it was; the \<^verbatim>\<open>done\<close> frame sets it to \<^verbatim>\<open>completed\<close> before the
  \<^verbatim>\<open>done\<close> event is dispatched, so that the event already carries
  \<^verbatim>\<open>completed\<close>.
\<close>

theorem C8_event_ordering:
  assumes m1: "msg_type m1 = Some ''document''" "msg_data m1 = Some (Document a)"
    and m2: "msg_type m2 = Some ''document''" "msg_data m2 = Some (Document b)"
    and m3: "msg_type m3 = Some ''done''"
    and dh: "event_handlers watcher ''document'' = Some doc_hs"
             "\<forall>h\<in>set doc_hs. \<forall>d w. fst (h d w) = None"
    and nh: "event_handlers watcher ''done'' = Some done_hs"
              "\<forall>h\<in>set done_hs. \<forall>d w. fst (h d w) = None"
  shows "listen [m1, m2, m3] watcher out =
           (None,
            watcher\<lparr>watcher_data := watcher_data watcher @ [a, b], watcher_status := ''completed''\<rparr>,
            out\<lparr>dispatched := dispatched out @
                   [(''document'', DocumentDetail a (watcher_id watcher)),
                    (''document'', DocumentDetail b (watcher_id watcher)),
                    (''done'', DoneDetail ''completed'' (watcher_data watcher @ [a, b]) (watcher_id watcher))],
                world :=
                  foldl (\<lambda>w h. snd (h (DoneDetail ''completed'' (watcher_data watcher @ [a, b])
                                           (watcher_id watcher)) w))
                    (foldl (\<lambda>w h. snd (h (DocumentDetail b (watcher_id watcher)) w))
                       (foldl (\<lambda>w h. snd (h (DocumentDetail a (watcher_id watcher)) w)) (world out) doc_hs)
                       doc_hs)
                    done_hs\<rparr>) \<and>
         watcher_status (fst (snd (listen [m1, m2] watcher out))) = watcher_status watcher \<and>
         event_handlers (add_event_listener ''document'' h watcher) ''document'' = Some (doc_hs @ [h])"
proof -
  let ?w1 = "watcher\<lparr>watcher_data := watcher_data watcher @ [a]\<rparr>"
  let ?w2 = "?w1\<lparr>watcher_data := watcher_data ?w1 @ [b]\<rparr>"
  have d1: "event_handlers ?w1 ''document'' = Some doc_hs" using dh(1) by simp
  have n2: "event_handlers ?w2 ''done'' = Some done_hs" using nh(1) by simp
  note s1 = handle_document_quiet [OF m1 dh]
  note s2 = handle_document_quiet [OF m2 d1 dh(2)]
  note s3 = handle_done_quiet [OF m3 n2 nh(2)]
  have A: "listen [m1, m2, m3] watcher out =
           (None,
            watcher\<lparr>watcher_data := watcher_data watcher @ [a, b], watcher_status := ''completed''\<rparr>,
            out\<lparr>dispatched := dispatched out @
                   [(''document'', DocumentDetail a (watcher_id watcher)),
                    (''document'', DocumentDetail b (watcher_id watcher)),
                    (''done'', DoneDetail ''completed'' (watcher_data watcher @ [a, b]) (watcher_id watcher))],
                world :=
                  foldl (\<lambda>w h. snd (h (DoneDetail ''completed'' (watcher_data watcher @ [a, b])
                                           (watcher_id watcher)) w))
                    (foldl (\<lambda>w h. snd (h (DocumentDetail b (watcher_id watcher)) w))
                       (foldl (\<lambda>w h. snd (h (DocumentDetail a (watcher_id watcher)) w)) (world out) doc_hs)
                       doc_hs)
                    done_hs\<rparr>)"
    by (simp only: listen.simps s1 s2 s3 prod.case option.case) simp
  have B: "watcher_status (fst (snd (listen [m1, m2] watcher out))) = watcher_status watcher"
    by (simp only: listen.simps s1 s2 prod.case option.case) simp
  have C: "event_handlers (add_event_listener ''document'' h watcher) ''document'' = Some (doc_hs @ [h])"
    using dh(1) by (rule add_event_listener_appends)
  from A B C show ?thesis by blast
qed

text \<open>
  Two \<^verbatim>\<open>document\<close> listeners and one \<^verbatim>\<open>done\<close> listener on a fresh session,
  each recording its name and the event it is given.
\<close>

theorem C8_event_ordering_witness:
  "snd (snd (listen
     [\<lparr>msg_type = Some ''document'', msg_data = Some (Document (10 :: nat)), msg_error = None\<rparr>,
      \<lparr>msg_type = Some ''document'', msg_data = Some (Document 20), msg_error = None\<rparr>,
      \<lparr>msg_type = Some ''done'', msg_data = None, msg_error = None\<rparr>]
     (add_event_listener ''done'' (\<lambda>d w. (None, w @ [(''third'', d)]))
       (add_event_listener ''document'' (\<lambda>d w. (None, w @ [(''second'', d)]))
         (add_event_listener ''document'' (\<lambda>d w. (None, w @ [(''first'', d)]))
           (init_watcher ''job-1''))))
     \<lparr>dispatched = [], world = []\<rparr>)) =
   \<lparr>dispatched = [(''document'', DocumentDetail 10 ''job-1''),
                  (''document'', DocumentDetail 20 ''job-1''),
                  (''done'', DoneDetail ''completed'' [10, 20] ''job-1'')],
    world = [(''first'', DocumentDetail 10 ''job-1''), (''second'', DocumentDetail 10 ''job-1''),
             (''first'', DocumentDetail 20 ''job-1''), (''second'', DocumentDetail 20 ''job-1''),
             (''third'', DoneDetail ''completed'' [10, 20] ''job-1'')]\<rparr>"
proof -
  let ?h1 = "\<lambda>(d :: nat detail) (w :: (string \<times> nat detail) list). (None :: error option, w @ [(''first'', d)])"
  let ?h2 = "\<lambda>(d :: nat detail) (w :: (string \<times> nat detail) list). (None :: error option, w @ [(''second'', d)])"
  let ?h3 = "\<lambda>(d :: nat detail) (w :: (string \<times> nat detail) list). (None :: error option, w @ [(''third'', d)])"
  let ?w = "add_event_listener ''done'' ?h3
              (add_event_listener ''document'' ?h2
                (add_event_listener ''document'' ?h1 (init_watcher ''job-1'')))"
  have dh: "event_handlers ?w ''document'' = Some [?h1, ?h2]"
    by (simp add: add_event_listener_def init_watcher_def)
  have nh: "event_handlers ?w ''done'' = Some [?h3]"
    by (simp add: add_event_listener_def init_watcher_def)
  have q1: "\<forall>h\<in>set [?h1, ?h2]. \<forall>d w. fst (h d w) = None" by simp
  have q2: "\<forall>h\<in>set [?h3]. \<forall>d w. fst (h d w) = None" by simp
  have wid: "watcher_id ?w = ''job-1''" "watcher_data ?w = []"
    by (simp_all add: add_event_listener_def init_watcher_def)
  show ?thesis
    using C8_event_ordering [where
        ?m1.0 = "\<lparr>msg_type = Some ''document'', msg_data = Some (Document (10 :: nat)), msg_error = None\<rparr>"
        and ?m2.0 = "\<lparr>msg_type = Some ''document'', msg_data = Some (Document 20), msg_error = None\<rparr>"
        and ?m3.0 = "\<lparr>msg_type = Some ''done'', msg_data = None, msg_error = None\<rparr>"
        and a = 10 and b = 20 and watcher = ?w and doc_hs = "[?h1, ?h2]" and done_hs = "[?h3]"
        and out = "\<lparr>dispatched = [], world = []\<rparr>", OF _ _ _ _ _ dh q1 nh q2]
    by (simp add: wid)
qed

text \<open>
  The claim C8 as stated has the status become \<^verbatim>\<open>completed\<close> only after the
  \<^verbatim>\<open>done\<close> dispatch. In the code the assignment comes first: a \<^verbatim>\<open>done\<close>
  listener is handed the status \<^verbatim>\<open>completed\<close>, and when that listener raises, so
  that the dispatch never completes, the session status is \<^verbatim>\<open>completed\<close> all the
  same.
\<close>

theorem C8_status_set_before_dispatch:
  "snd (snd (handle_message
     \<lparr>msg_type = Some ''done'', msg_data = (None :: nat payload option), msg_error = None\<rparr>
     (add_event_listener ''done'' (\<lambda>d w. (None, w @ [d])) (init_watcher ''job-1''))
     \<lparr>dispatched = [], world = []\<rparr>)) =
   \<lparr>dispatched = [(''done'', DoneDetail ''completed'' [] ''job-1'')],
    world = [DoneDetail ''completed'' [] ''job-1'']\<rparr> \<and>
   fst (handle_message
     \<lparr>msg_type = Some ''done'', msg_data = (None :: nat payload option), msg_error = None\<rparr>
     (add_event_listener ''done'' (\<lambda>d w. (Some (Exception ''listener failed''), w))
        (init_watcher ''job-1''))
     \<lparr>dispatched = [], world = ()\<rparr>) = Some (Exception ''listener failed'') \<and>
   watcher_status (fst (snd (handle_message
     \<lparr>msg_type = Some ''done'', msg_data = (None :: nat payload option), msg_error = None\<rparr>
     (add_event_listener ''done'' (\<lambda>d w. (Some (Exception ''listener failed''), w))
        (init_watcher ''job-1''))
     \<lparr>dispatched = [], world = ()\<rparr>))) = ''completed''"
  by (simp add: handle_message_def dispatch_event_def add_event_listener_def init_watcher_def)

end
